theory Spec2Isabelle
  imports Complex_Main "HOL-Library.AList"
begin

section \<open>Data model (memory/models.py)\<close>

text \<open>
  Python floats are modelled as reals and Python strings as HOL strings.  A dictionary
  that is iterated or whose order shows is an association list in insertion order
  (\<open>AList.update\<close> overwrites in place and appends a new key, as a Python \<open>dict\<close> does);
  the free-form metadata dictionaries hold JSON-like values.  An embedding vector
  (a numpy array of float32) is a list of reals.
\<close>

datatype json = JNull | JBool bool | JNum real | JStr string | JDict "(string \<times> json) list"

type_synonym metadata = "(string \<times> json) list"
type_synonym embedding = "real list"

datatype error =
    IntegrityError string
  | ValueError string
  | ValidationError string
  | RuntimeError string
  | FileNotFoundError string
  | OSError string
  | IndexError

record FileInfo =
  fi_id :: string
  fi_path :: string
  fi_hash :: string
  fi_size :: nat
  fi_mtime :: real
  fi_metadata :: metadata
  fi_created_at :: real
  fi_updated_at :: real

record ChunkInfo =
  ci_id :: string
  ci_file_id :: string
  ci_text :: string
  ci_start_char :: int
  ci_end_char :: int
  ci_metadata :: metadata
  ci_created_at :: real

section \<open>SQLite storage backend (memory/storage/sqlite_backend.py)\<close>

text \<open>
  The database is modelled table by table.  A row of \<open>chunks\<close> carries its integer
  \<open>rowid\<close> (\<open>INTEGER PRIMARY KEY AUTOINCREMENT\<close>, so a rowid is never handed out twice:
  \<open>seq\<close> is the sqlite sequence counter), the chunk itself and the optional embedding
  blob.  \<open>chunks_fts\<close> and \<open>chunks_vec\<close> are the two virtual index tables, keyed by
  rowid.  The schema's constraints are part of the model: \<open>files.id\<close> is the primary key
  and \<open>files.path\<close> is unique, \<open>chunks.id\<close> is unique, \<open>chunks.file_id\<close> references
  \<open>files(id)\<close> with \<open>ON DELETE CASCADE\<close> (foreign keys are switched on in
  \<open>initialize\<close>), and \<open>embedding_cache.hash\<close> is the primary key of the cache table.
\<close>

record chunk_row =
  rowid :: nat
  chunk :: ChunkInfo
  embedding_blob :: "embedding option"

record cache_row =
  cr_hash :: string
  cr_provider :: string
  cr_model :: string
  cr_embedding :: embedding
  cr_created_at :: real

record SQLiteBackend =
  files :: "FileInfo list"
  chunks :: "chunk_row list"
  chunks_fts :: "(nat \<times> string) list"
  chunks_vec :: "(nat \<times> embedding) list"
  embedding_cache :: "cache_row list"
  seq :: nat
  has_vector_support :: bool

definition dimension :: nat where
  "dimension = 384"

definition empty_backend :: "bool \<Rightarrow> SQLiteBackend" where
  "empty_backend vec =
     \<lparr>files = [], chunks = [], chunks_fts = [], chunks_vec = [], embedding_cache = [],
      seq = 0, has_vector_support = vec\<rparr>"

text \<open>\<open>DELETE FROM files WHERE ...\<close> with the cascade onto \<open>chunks\<close>.\<close>

definition delete_files_where :: "(FileInfo \<Rightarrow> bool) \<Rightarrow> SQLiteBackend \<Rightarrow> SQLiteBackend" where
  "delete_files_where P s =
     (let gone = map fi_id (filter P (files s))
      in s\<lparr>files := filter (\<lambda>f. \<not> P f) (files s),
            chunks := filter (\<lambda>r. ci_file_id (chunk r) \<notin> set gone) (chunks s)\<rparr>)"

text \<open>
  \<open>add_file\<close>: \<open>INSERT OR REPLACE INTO files\<close>.  A row that conflicts on the primary key
  or on the unique path is deleted first (with the cascade), then the new row is
  inserted.
\<close>

definition add_file :: "SQLiteBackend \<Rightarrow> FileInfo \<Rightarrow> string \<times> SQLiteBackend" where
  "add_file s file_info =
     (let s1 = delete_files_where
                 (\<lambda>f. fi_id f = fi_id file_info \<or> fi_path f = fi_path file_info) s
      in (fi_id file_info, s1\<lparr>files := files s1 @ [file_info]\<rparr>))"


definition get_file_by_path :: "SQLiteBackend \<Rightarrow> string \<Rightarrow> FileInfo option" where
  "get_file_by_path s path = find (\<lambda>f. fi_path f = path) (files s)"

text \<open>
  \<open>update_file\<close>: \<open>UPDATE files SET path, hash, size, mtime, metadata, updated_at WHERE id\<close>.
  The new path must not collide with another row's path (\<open>UNIQUE\<close>);
  \<open>created_at\<close> keeps its stored value and \<open>updated_at\<close> is the clock.
\<close>

definition update_file :: "real \<Rightarrow> SQLiteBackend \<Rightarrow> FileInfo \<Rightarrow> error + (bool \<times> SQLiteBackend)" where
  "update_file now s file_info =
     (if \<exists>f \<in> set (files s). fi_id f = fi_id file_info
       \<and> (\<exists>g \<in> set (files s). fi_id g \<noteq> fi_id file_info \<and> fi_path g = fi_path file_info)
      then Inl (IntegrityError ''UNIQUE constraint failed: files.path'')
      else Inr (\<exists>f \<in> set (files s). fi_id f = fi_id file_info,
                s\<lparr>files := map (\<lambda>f. if fi_id f = fi_id file_info
                                       then f\<lparr>fi_path := fi_path file_info,
                                              fi_hash := fi_hash file_info,
                                              fi_size := fi_size file_info,
                                              fi_mtime := fi_mtime file_info,
                                              fi_metadata := fi_metadata file_info,
                                              fi_updated_at := now\<rparr>
                                       else f) (files s)\<rparr>))"

text \<open>
  \<open>delete_file\<close>: the one statement \<open>DELETE FROM files WHERE id = ?\<close> and a commit.  The
  chunk rows go with the cascade; nothing is executed against \<open>chunks_fts\<close> or
  \<open>chunks_vec\<close>.  The result is \<open>cursor.rowcount > 0\<close>.
\<close>

definition delete_file :: "SQLiteBackend \<Rightarrow> string \<Rightarrow> bool \<times> SQLiteBackend" where
  "delete_file s file_id =
     (\<exists>f \<in> set (files s). fi_id f = file_id,
      delete_files_where (\<lambda>f. fi_id f = file_id) s)"

text \<open>
  \<open>add_chunk\<close>: the insert into \<open>chunks\<close> raises on a duplicate chunk id and on a
  \<open>file_id\<close> that no file row has; then the row is mirrored into \<open>chunks_fts\<close> and, when
  the vector extension is loaded and an embedding is given, into \<open>chunks_vec\<close> (an
  insert that the extension rejects, a vector of another dimension, is logged and
  skipped).
\<close>

definition add_chunk ::
  "SQLiteBackend \<Rightarrow> ChunkInfo \<Rightarrow> embedding option \<Rightarrow> error + (string \<times> SQLiteBackend)" where
  "add_chunk s chunk_info emb =
     (if \<exists>r \<in> set (chunks s). ci_id (chunk r) = ci_id chunk_info
      then Inl (IntegrityError ''UNIQUE constraint failed: chunks.id'')
      else if \<not> (\<exists>f \<in> set (files s). fi_id f = ci_file_id chunk_info)
      then Inl (IntegrityError ''FOREIGN KEY constraint failed'')
      else
        let chunk_rowid = seq s + 1;
            s1 = s\<lparr>chunks := chunks s @
                        [\<lparr>rowid = chunk_rowid, chunk = chunk_info, embedding_blob = emb\<rparr>],
                    seq := chunk_rowid\<rparr>;
            s2 = s1\<lparr>chunks_fts := chunks_fts s1 @ [(chunk_rowid, ci_text chunk_info)]\<rparr>;
            s3 = (case emb of
                    None \<Rightarrow> s2
                  | Some e \<Rightarrow>
                      if has_vector_support s2 \<and> length e = dimension
                      then s2\<lparr>chunks_vec := chunks_vec s2 @ [(chunk_rowid, e)]\<rparr>
                      else s2)
        in Inr (ci_id chunk_info, s3))"

definition get_chunks_by_file :: "SQLiteBackend \<Rightarrow> string \<Rightarrow> ChunkInfo list" where
  "get_chunks_by_file s file_id =
     sort_key ci_start_char
       (map chunk (filter (\<lambda>r. ci_file_id (chunk r) = file_id) (chunks s)))"

text \<open>
  \<open>delete_chunks_by_file\<close>, the sibling of \<open>delete_file\<close>: it reads the rowids of the file's
  chunks, deletes them from \<open>chunks_fts\<close>, from \<open>chunks_vec\<close> when the extension is
  loaded, and then deletes the chunk rows.
\<close>

definition delete_chunks_by_file :: "SQLiteBackend \<Rightarrow> string \<Rightarrow> nat \<times> SQLiteBackend" where
  "delete_chunks_by_file s file_id =
     (let chunk_rowids = map rowid (filter (\<lambda>r. ci_file_id (chunk r) = file_id) (chunks s));
          s1 = s\<lparr>chunks_fts := filter (\<lambda>(i, t). i \<notin> set chunk_rowids) (chunks_fts s)\<rparr>;
          s2 = (if has_vector_support s1
                then s1\<lparr>chunks_vec := filter (\<lambda>(i, e). i \<notin> set chunk_rowids) (chunks_vec s1)\<rparr>
                else s1)
      in (length chunk_rowids,
          s2\<lparr>chunks := filter (\<lambda>r. ci_file_id (chunk r) \<noteq> file_id) (chunks s2)\<rparr>))"

subsection \<open>Embedding cache table\<close>

text \<open>
  \<open>get_cached_embedding\<close> selects on all three columns; an empty blob is falsy in
  Python and reads as no entry.  \<open>cache_embedding\<close> is \<open>INSERT OR REPLACE\<close> into a table
  whose primary key is the column \<open>hash\<close> alone, so the row it replaces is the row with
  the same hash, whatever its provider and model.
\<close>

definition get_cached_embedding ::
  "SQLiteBackend \<Rightarrow> string \<Rightarrow> string \<Rightarrow> string \<Rightarrow> embedding option" where
  "get_cached_embedding s text_hash provider model =
     (case find (\<lambda>r. cr_hash r = text_hash \<and> cr_provider r = provider \<and> cr_model r = model)
                (embedding_cache s) of
        None \<Rightarrow> None
      | Some r \<Rightarrow> if cr_embedding r = [] then None else Some (cr_embedding r))"

definition cache_embedding ::
  "real \<Rightarrow> SQLiteBackend \<Rightarrow> string \<Rightarrow> string \<Rightarrow> string \<Rightarrow> embedding \<Rightarrow> SQLiteBackend" where
  "cache_embedding now s text_hash provider model emb =
     s\<lparr>embedding_cache :=
         filter (\<lambda>r. cr_hash r \<noteq> text_hash) (embedding_cache s) @
         [\<lparr>cr_hash = text_hash, cr_provider = provider, cr_model = model,
           cr_embedding = emb, cr_created_at = now\<rparr>]\<rparr>"

section \<open>In-memory storage backend (memory/storage/memory_backend.py)\<close>

text \<open>
  Of the in-memory backend only the embedding cache is needed here: a dictionary whose
  key is the string \<open>provider:model:text_hash\<close>.
\<close>

definition cache_key :: "string \<Rightarrow> string \<Rightarrow> string \<Rightarrow> string" where
  "cache_key provider model text_hash = provider @ '':'' @ model @ '':'' @ text_hash"

definition mem_get_cached_embedding ::
  "(string \<rightharpoonup> embedding) \<Rightarrow> string \<Rightarrow> string \<Rightarrow> string \<Rightarrow> embedding option" where
  "mem_get_cached_embedding cache text_hash provider model =
     cache (cache_key provider model text_hash)"

definition mem_cache_embedding ::
  "(string \<rightharpoonup> embedding) \<Rightarrow> string \<Rightarrow> string \<Rightarrow> string \<Rightarrow> embedding \<Rightarrow> (string \<rightharpoonup> embedding)" where
  "mem_cache_embedding cache text_hash provider model emb =
     cache(cache_key provider model text_hash \<mapsto> emb)"

section \<open>Embedding manager (memory/embeddings/manager.py)\<close>

text \<open>
  A provider is its name, its model, its \<open>embed\<close> (which may raise) and its
  \<open>compute_text_hash\<close>.  The manager's dictionaries are an association list in
  registration order (\<open>providers\<close>) and two maps.  \<open>storage_backend\<close> is \<open>None\<close> when the
  manager was built without one.
\<close>

record EmbeddingProvider =
  p_name :: string
  p_model :: string
  p_embed :: "string list \<Rightarrow> error + embedding list"
  compute_text_hash :: "string \<Rightarrow> string"

record EmbeddingManager =
  primary_provider_name :: string
  fallback_provider_name :: string
  cache_enabled :: bool
  storage_backend :: "SQLiteBackend option"
  providers :: "(string \<times> EmbeddingProvider) list"
  provider_status :: "string \<rightharpoonup> bool"
  failure_counts :: "string \<rightharpoonup> int"
  max_failures :: int

definition failures :: "EmbeddingManager \<Rightarrow> string \<Rightarrow> int" where
  "failures m provider_name =
     (case failure_counts m provider_name of None \<Rightarrow> 0 | Some c \<Rightarrow> c)"

definition is_provider_available :: "EmbeddingManager \<Rightarrow> string \<Rightarrow> bool" where
  "is_provider_available m provider_name =
     (map_of (providers m) provider_name \<noteq> None \<and>
      (case provider_status m provider_name of None \<Rightarrow> False | Some b \<Rightarrow> b) \<and>
      failures m provider_name < max_failures m)"

definition record_failure :: "EmbeddingManager \<Rightarrow> string \<Rightarrow> EmbeddingManager" where
  "record_failure m provider_name =
     (let m1 = m\<lparr>failure_counts := (failure_counts m)(provider_name \<mapsto> failures m provider_name + 1)\<rparr>
      in if failures m1 provider_name \<ge> max_failures m1
         then m1\<lparr>provider_status := (provider_status m1)(provider_name \<mapsto> False)\<rparr>
         else m1)"

text \<open>The last stage of the fallback chain: any other registered provider, in order.\<close>

fun try_other_providers ::
  "EmbeddingManager \<Rightarrow> (string \<times> EmbeddingProvider) list \<Rightarrow> string list
     \<Rightarrow> (error + embedding list) \<times> EmbeddingManager" where
  "try_other_providers m [] texts = (Inl (RuntimeError ''All embedding providers failed''), m)"
| "try_other_providers m ((provider_name, provider) # rest) texts =
     (if provider_name \<noteq> primary_provider_name m
         \<and> provider_name \<noteq> fallback_provider_name m
         \<and> is_provider_available m provider_name
      then (case p_embed provider texts of
              Inr embeddings \<Rightarrow> (Inr embeddings, m)
            | Inl e \<Rightarrow> try_other_providers (record_failure m provider_name) rest texts)
      else try_other_providers m rest texts)"

definition try_fallback ::
  "EmbeddingManager \<Rightarrow> string list \<Rightarrow> (error + embedding list) \<times> EmbeddingManager" where
  "try_fallback m texts =
     (case (if fallback_provider_name m \<noteq> primary_provider_name m
               \<and> is_provider_available m (fallback_provider_name m)
            then map_of (providers m) (fallback_provider_name m) else None) of
        None \<Rightarrow> try_other_providers m (providers m) texts
      | Some provider \<Rightarrow>
          (case p_embed provider texts of
             Inr embeddings \<Rightarrow> (Inr embeddings, m)
           | Inl e \<Rightarrow>
               (let m1 = record_failure m (fallback_provider_name m)
                in try_other_providers m1 (providers m1) texts)))"

definition generate_embeddings ::
  "EmbeddingManager \<Rightarrow> string list \<Rightarrow> (error + embedding list) \<times> EmbeddingManager" where
  "generate_embeddings m texts =
     (case (if is_provider_available m (primary_provider_name m)
            then map_of (providers m) (primary_provider_name m) else None) of
        None \<Rightarrow> try_fallback m texts
      | Some provider \<Rightarrow>
          (case p_embed provider texts of
             Inr embeddings \<Rightarrow> (Inr embeddings, m)
           | Inl e \<Rightarrow> try_fallback (record_failure m (primary_provider_name m)) texts))"

text \<open>
  \<open>_get_cached_embeddings\<close>: one lookup per text under the primary provider's name and
  model.  The list of hits has one entry per input text, \<open>None\<close> at the position of a
  miss; the second list holds the indices of the misses.
\<close>

fun lookup_texts ::
  "SQLiteBackend \<Rightarrow> EmbeddingProvider \<Rightarrow> nat \<Rightarrow> string list
     \<Rightarrow> embedding option list \<times> nat list" where
  "lookup_texts sb primary_provider i [] = ([], [])"
| "lookup_texts sb primary_provider i (t # ts) =
     (let cached_embedding =
            get_cached_embedding sb (compute_text_hash primary_provider t)
              (p_name primary_provider) (p_model primary_provider);
          (cache_hits, cache_misses) = lookup_texts sb primary_provider (i + 1) ts
      in (cached_embedding # cache_hits,
          if cached_embedding = None then i # cache_misses else cache_misses))"

definition get_cached_embeddings ::
  "EmbeddingManager \<Rightarrow> string list \<Rightarrow> (embedding option list \<times> nat list) option" where
  "get_cached_embeddings m texts =
     (case storage_backend m of
        None \<Rightarrow> None
      | Some sb \<Rightarrow>
          (case map_of (providers m) (primary_provider_name m) of
             None \<Rightarrow> None
           | Some primary_provider \<Rightarrow> Some (lookup_texts sb primary_provider 0 texts)))"

fun cache_all ::
  "real \<Rightarrow> SQLiteBackend \<Rightarrow> EmbeddingProvider \<Rightarrow> (string \<times> embedding) list \<Rightarrow> SQLiteBackend" where
  "cache_all now sb primary_provider [] = sb"
| "cache_all now sb primary_provider ((t, e) # rest) =
     cache_all now
       (cache_embedding now sb (compute_text_hash primary_provider t)
          (p_name primary_provider) (p_model primary_provider) e)
       primary_provider rest"

definition cache_embeddings ::
  "real \<Rightarrow> EmbeddingManager \<Rightarrow> string list \<Rightarrow> embedding list \<Rightarrow> EmbeddingManager" where
  "cache_embeddings now m texts embeddings =
     (case storage_backend m of
        None \<Rightarrow> m
      | Some sb \<Rightarrow>
          if length texts \<noteq> length embeddings then m
          else (case map_of (providers m) (primary_provider_name m) of
                  None \<Rightarrow> m
                | Some primary_provider \<Rightarrow>
                    m\<lparr>storage_backend :=
                        Some (cache_all now sb primary_provider (zip texts embeddings))\<rparr>))"

text \<open>
  The loop of \<open>embed\<close> that puts the result together: position \<open>i\<close> takes
  \<open>new_embeddings[miss_idx]\<close> when \<open>i\<close> is a miss and \<open>cache_hits[cache_idx]\<close> otherwise,
  and each counter advances when it is used.  An index past the end raises.
\<close>

fun reassemble ::
  "nat \<Rightarrow> nat \<Rightarrow> nat list \<Rightarrow> embedding option list \<Rightarrow> embedding list \<Rightarrow> nat \<Rightarrow> nat
     \<Rightarrow> error + embedding option list" where
  "reassemble 0 i cache_misses cache_hits new_embeddings cache_idx miss_idx = Inr []"
| "reassemble (Suc k) i cache_misses cache_hits new_embeddings cache_idx miss_idx =
     (if i \<in> set cache_misses
      then (if miss_idx < length new_embeddings
            then (case reassemble k (i + 1) cache_misses cache_hits new_embeddings
                         cache_idx (miss_idx + 1) of
                    Inl e \<Rightarrow> Inl e
                  | Inr r \<Rightarrow> Inr (Some (new_embeddings ! miss_idx) # r))
            else Inl IndexError)
      else (if cache_idx < length cache_hits
            then (case reassemble k (i + 1) cache_misses cache_hits new_embeddings
                         (cache_idx + 1) miss_idx of
                    Inl e \<Rightarrow> Inl e
                  | Inr r \<Rightarrow> Inr (cache_hits ! cache_idx # r))
            else Inl IndexError))"

definition generate_all ::
  "real \<Rightarrow> EmbeddingManager \<Rightarrow> string list
     \<Rightarrow> (error + embedding option list) \<times> EmbeddingManager" where
  "generate_all now m texts =
     (case generate_embeddings m texts of
        (Inl e, m1) \<Rightarrow> (Inl e, m1)
      | (Inr embeddings, m1) \<Rightarrow>
          (Inr (map Some embeddings),
           if embeddings \<noteq> [] \<and> cache_enabled m1 \<and> storage_backend m1 \<noteq> None
           then cache_embeddings now m1 texts embeddings else m1))"

definition embed ::
  "real \<Rightarrow> EmbeddingManager \<Rightarrow> string list
     \<Rightarrow> (error + embedding option list) \<times> EmbeddingManager" where
  "embed now m texts =
     (if texts = [] then (Inr [], m)
      else
        case (if cache_enabled m \<and> storage_backend m \<noteq> None
              then get_cached_embeddings m texts else None) of
          None \<Rightarrow> generate_all now m texts
        | Some (cache_hits, cache_misses) \<Rightarrow>
            if cache_misses = [] then (Inr cache_hits, m)
            else
              (case generate_embeddings m (map (\<lambda>i. texts ! i) cache_misses) of
                 (Inl e, m1) \<Rightarrow> (Inl e, m1)
               | (Inr new_embeddings, m1) \<Rightarrow>
                   if new_embeddings \<noteq> []
                   then
                     (let m2 = cache_embeddings now m1
                                 (map (\<lambda>i. texts ! i) cache_misses) new_embeddings
                      in (case reassemble (length texts) 0 cache_misses cache_hits
                                 new_embeddings 0 0 of
                            Inl e \<Rightarrow> (Inl e, m2)
                          | Inr result \<Rightarrow> (Inr result, m2)))
                   else generate_all now m1 texts))"

definition embed_single ::
  "real \<Rightarrow> EmbeddingManager \<Rightarrow> string \<Rightarrow> (error + embedding option) \<times> EmbeddingManager" where
  "embed_single now m t =
     (case embed now m [t] of
        (Inl e, m1) \<Rightarrow> (Inl e, m1)
      | (Inr [], m1) \<Rightarrow> (Inl IndexError, m1)
      | (Inr (e # _), m1) \<Rightarrow> (Inr e, m1))"

section \<open>Search options (memory/models.py, SearchOptions)\<close>

text \<open>
  Construction of a \<open>SearchOptions\<close> validates the fields in their order of
  declaration.  \<open>max_results\<close> must lie in 1..100, \<open>min_score\<close> and each weight that is
  given in [0, 1].  The validator of \<open>keyword_weight\<close> runs when that field passed its
  own bounds; it finds \<open>vector_weight\<close> among the already validated values only when
  that field passed too (\<open>values_vector_weight\<close> is \<open>None\<close> otherwise).  Its test
  \<open>abs((v + vector_weight) - 1.0) > 0.001\<close> is two float operations and a comparison
  with the float literal.  Any failure makes the construction raise \<open>ValidationError\<close>.
\<close>

datatype search_mode = Vector | Keyword | Hybrid

record SearchOptions =
  mode :: search_mode
  max_results :: int
  min_score :: real
  sources :: "string list option"
  vector_weight :: "real option"
  keyword_weight :: "real option"

text \<open>
  Floating point.  A Python float is modelled by the real number it denotes, and a
  float operation returns the exact result rounded to the nearest double, ties to even:
  \<open>fl x\<close> scales \<open>x\<close> by the power of two that brings it into \<open>[2^52, 2^53)\<close>, rounds to
  the nearest integer and scales back (overflow and subnormal numbers do not occur
  for the weights and sums it is applied to).  A float literal \<open>c\<close> of the source is
  \<open>fl c\<close>.  Comparisons and \<open>abs\<close> are exact.  Rounding is applied where a claim
  depends on a comparison at a tolerance; the scores of the search pipeline are kept
  exact.
\<close>

definition nearest_even :: "real \<Rightarrow> int" where
  "nearest_even y = (if frac y = 1 / 2 \<and> even \<lfloor>y\<rfloor> then \<lfloor>y\<rfloor> else round y)"

definition fl :: "real \<Rightarrow> real" where
  "fl x = (if x = 0 then 0
           else (let q = 2 powr (of_int \<lfloor>log 2 \<bar>x\<bar>\<rfloor> - 52)
                 in of_int (nearest_even (x / q)) * q))"

definition in_bounds :: "real \<Rightarrow> bool" where
  "in_bounds x = (0 \<le> x \<and> x \<le> 1)"

definition weight_in_bounds :: "real option \<Rightarrow> bool" where
  "weight_in_bounds w = (case w of None \<Rightarrow> True | Some x \<Rightarrow> in_bounds x)"

definition validate_weights_sum :: "real option \<Rightarrow> real option option \<Rightarrow> error + real option" where
  "validate_weights_sum v values_vector_weight =
     (case v of
        None \<Rightarrow> Inr v
      | Some kw \<Rightarrow>
          (case values_vector_weight of
             Some (Some vw) \<Rightarrow>
               if \<bar>fl (fl (kw + vw) - 1)\<bar> > fl 0.001
               then Inl (ValueError ''Vector weight and keyword weight must sum to 1.0'')
               else Inr v
           | _ \<Rightarrow> Inr v))"

definition new_SearchOptions ::
  "search_mode \<Rightarrow> int \<Rightarrow> real \<Rightarrow> string list option \<Rightarrow> real option \<Rightarrow> real option
     \<Rightarrow> error + SearchOptions" where
  "new_SearchOptions md mr ms src vw kw =
     (if \<not> (1 \<le> mr \<and> mr \<le> 100) then Inl (ValidationError ''max_results'')
      else if \<not> in_bounds ms then Inl (ValidationError ''min_score'')
      else if \<not> weight_in_bounds vw then Inl (ValidationError ''vector_weight'')
      else if \<not> weight_in_bounds kw then Inl (ValidationError ''keyword_weight'')
      else (case validate_weights_sum kw (Some vw) of
              Inl e \<Rightarrow> Inl (ValidationError ''keyword_weight'')
            | Inr v \<Rightarrow>
                Inr \<lparr>mode = md, max_results = mr, min_score = ms, sources = src,
                     vector_weight = vw, keyword_weight = v\<rparr>))"


section \<open>Hybrid search (memory/search/hybrid.py)\<close>

record SearchResult =
  sr_file_id :: string
  sr_file_path :: string
  sr_text :: string
  sr_score :: real
  sr_start_char :: nat
  sr_end_char :: nat
  sr_metadata :: metadata
  sr_excerpt :: "string option"

text \<open>\<open>str\<close> of a non-negative integer, and the merge key \<open>f"{file_id}:{start_char}"\<close>.\<close>

function str_nat :: "nat \<Rightarrow> string" where
  "str_nat n = (if n < 10 then [''0123456789'' ! n]
                else str_nat (n div 10) @ [''0123456789'' ! (n mod 10)])"
  by pat_completeness auto
termination
  by (relation "measure (\<lambda>n. n)") auto

declare str_nat.simps [simp del]

definition result_key :: "SearchResult \<Rightarrow> string" where
  "result_key result = sr_file_id result @ '':'' @ str_nat (sr_start_char result)"

fun contains :: "string \<Rightarrow> string \<Rightarrow> bool" where
  "contains sub [] = (sub = [])"
| "contains sub (c # cs) = (take (length sub) (c # cs) = sub \<or> contains sub cs)"

definition dict_get :: "(string \<times> 'v) list \<Rightarrow> string \<Rightarrow> 'v \<Rightarrow> 'v" where
  "dict_get d k dflt = (case map_of d k of None \<Rightarrow> dflt | Some v \<Rightarrow> v)"

definition dict_update :: "(string \<times> 'v) list \<Rightarrow> (string \<times> 'v) list \<Rightarrow> (string \<times> 'v) list" where
  "dict_update d kvs = foldl (\<lambda>acc (k, v). AList.update k v acc) d kvs"

text \<open>
  The three dictionaries of \<open>_merge_results\<close>: the results by key, the vector scores
  and the keyword scores.
\<close>

record merge_state =
  result_map :: "(string \<times> SearchResult) list"
  vector_scores :: "(string \<times> real) list"
  keyword_scores :: "(string \<times> real) list"

definition process_vector_result :: "merge_state \<Rightarrow> SearchResult \<Rightarrow> merge_state" where
  "process_vector_result st result =
     (let key = result_key result
      in st\<lparr>result_map := AList.update key result (result_map st),
             vector_scores := AList.update key (sr_score result) (vector_scores st)\<rparr>)"

definition process_keyword_result :: "merge_state \<Rightarrow> SearchResult \<Rightarrow> merge_state" where
  "process_keyword_result st result =
     (let key = result_key result;
          st1 =
            (case map_of (result_map st) key of
               Some existing \<Rightarrow>
                 (let e1 = (if (case sr_excerpt result of
                                  None \<Rightarrow> False
                                | Some x \<Rightarrow> x \<noteq> [] \<and> contains ''...'' x)
                            then existing\<lparr>sr_excerpt := sr_excerpt result\<rparr>
                            else existing);
                      e2 = (if map_of (sr_metadata e1) ''keyword_score'' = None
                            then e1\<lparr>sr_metadata :=
                                     dict_update (sr_metadata e1)
                                       [(''keyword_score'', JNum (sr_score result)),
                                        (''vector_score'',
                                         JNum (dict_get (vector_scores st) key 0))]\<rparr>
                            else e1)
                  in st\<lparr>result_map := AList.update key e2 (result_map st)\<rparr>)
             | None \<Rightarrow>
                 st\<lparr>result_map := AList.update key result (result_map st),
                    vector_scores := AList.update key 0 (vector_scores st)\<rparr>)
      in st1\<lparr>keyword_scores := AList.update key (sr_score result) (keyword_scores st1)\<rparr>)"

definition combine ::
  "merge_state \<Rightarrow> real \<Rightarrow> real \<Rightarrow> string \<times> SearchResult \<Rightarrow> SearchResult" where
  "combine st vw kw kr =
     (let key = fst kr; result = snd kr;
          vector_score = dict_get (vector_scores st) key 0;
          keyword_score = dict_get (keyword_scores st) key 0;
          combined_score = vector_score * vw + keyword_score * kw;
          combined_score = (if vector_score > 0 \<and> keyword_score > 0
                            then combined_score * 1.1 else combined_score)
      in result\<lparr>sr_score := min 1 combined_score,
                sr_metadata :=
                  dict_update (sr_metadata result)
                    [(''search_type'', JStr ''hybrid''),
                     (''vector_score'', JNum vector_score),
                     (''keyword_score'', JNum keyword_score),
                     (''combined_score'', JNum combined_score),
                     (''vector_weight'', JNum vw),
                     (''keyword_weight'', JNum kw),
                     (''appears_in_both'', JBool (vector_score > 0 \<and> keyword_score > 0))]\<rparr>)"

text \<open>
  \<open>list.sort(key=score, reverse=True)\<close> is a stable sort in descending order: results
  of equal score keep their order.
\<close>

definition sort_descending :: "SearchResult list \<Rightarrow> SearchResult list" where
  "sort_descending results = sort_key (\<lambda>r. - sr_score r) results"

definition merge_results ::
  "SearchResult list \<Rightarrow> SearchResult list \<Rightarrow> real \<Rightarrow> real \<Rightarrow> SearchResult list" where
  "merge_results vector_results keyword_results vw kw =
     (let st0 = \<lparr>result_map = [], vector_scores = [], keyword_scores = []\<rparr>;
          st1 = foldl process_vector_result st0 vector_results;
          st2 = foldl process_keyword_result st1 keyword_results
      in sort_descending (map (combine st2 vw kw) (result_map st2)))"

text \<open>
  \<open>x or d\<close> on an optional float: the default replaces \<open>None\<close> and also the falsy
  value 0.0.
\<close>

definition or_default :: "real option \<Rightarrow> real \<Rightarrow> real" where
  "or_default x d = (case x of None \<Rightarrow> d | Some v \<Rightarrow> if v = 0 then d else v)"

text \<open>
  \<open>_hybrid_search\<close>.  The two sub-searches are parameters; each may raise.  The expanded
  options are built inside the \<open>try\<close>, so a rejected construction, like a failing
  sub-search, leads to the fallback: vector search with the caller's options, then
  keyword search.
\<close>

type_synonym search_fn = "string \<Rightarrow> SearchOptions \<Rightarrow> error + SearchResult list"

definition hybrid_fallback :: "search_fn \<Rightarrow> search_fn \<Rightarrow> string \<Rightarrow> SearchOptions
     \<Rightarrow> error + SearchResult list" where
  "hybrid_fallback vector_search keyword_search query options =
     (case vector_search query options of
        Inr results \<Rightarrow> Inr results
      | Inl e \<Rightarrow> keyword_search query options)"

definition hybrid_search :: "search_fn \<Rightarrow> search_fn \<Rightarrow> string \<Rightarrow> SearchOptions
     \<Rightarrow> error + SearchResult list" where
  "hybrid_search vector_search keyword_search query options =
     (case new_SearchOptions (mode options) (max_results options * 3)
             (max 0.1 (min_score options - 0.2)) (sources options)
             (vector_weight options) (keyword_weight options) of
        Inl e \<Rightarrow> hybrid_fallback vector_search keyword_search query options
      | Inr expanded_options \<Rightarrow>
          (case vector_search query expanded_options of
             Inl e \<Rightarrow> hybrid_fallback vector_search keyword_search query options
           | Inr vector_results \<Rightarrow>
               (case keyword_search query expanded_options of
                  Inl e \<Rightarrow> hybrid_fallback vector_search keyword_search query options
                | Inr keyword_results \<Rightarrow>
                    (let merged_results =
                           merge_results vector_results keyword_results
                             (or_default (vector_weight options) 0.7)
                             (or_default (keyword_weight options) 0.3);
                         filtered_results =
                           filter (\<lambda>result. sr_score result \<ge> min_score options)
                             merged_results
                     in Inr (take (nat (max_results options)) filtered_results)))))"

section \<open>Chunker (memory/processing/chunker.py)\<close>

text \<open>
  Characters are the code points below 256.  \<open>is_space\<close> is \<open>str.isspace\<close> on them, which
  is also what \<open>\s\<close> matches in a \<open>str\<close> pattern: tab, line feed, vertical tab, form
  feed, carriage return, the four separators 28 to 31, space, next line (133) and
  no-break space (160).
\<close>

definition is_space :: "char \<Rightarrow> bool" where
  "is_space c = ((of_char c :: nat) \<in> {9, 10, 11, 12, 13, 28, 29, 30, 31, 32, 133, 160})"

definition newline :: char where
  "newline = CHR 0x0A"

definition strip :: "string \<Rightarrow> string" where
  "strip s = rev (dropWhile is_space (rev (dropWhile is_space s)))"

text \<open>
  Python slices \<open>s[i:j]\<close> and \<open>s[i:]\<close> for arbitrary integers: a negative index counts
  from the end, and both ends are clamped into the string.
\<close>

definition slice_index :: "nat \<Rightarrow> int \<Rightarrow> nat" where
  "slice_index n k = (if k < 0 then nat (max 0 (int n + k)) else min (nat k) n)"

definition slice :: "string \<Rightarrow> int \<Rightarrow> int \<Rightarrow> string" where
  "slice s i j = take (slice_index (length s) j - slice_index (length s) i)
                   (drop (slice_index (length s) i) s)"

definition slice_from :: "string \<Rightarrow> int \<Rightarrow> string" where
  "slice_from s i = drop (slice_index (length s) i) s"

text \<open>\<open>s.find(sub, start)\<close> for a start inside the string: the first index, or \<open>None\<close> for -1.\<close>

definition str_find :: "string \<Rightarrow> string \<Rightarrow> nat \<Rightarrow> nat option" where
  "str_find s sub start =
     find (\<lambda>i. take (length sub) (drop i s) = sub) [start..<Suc (length s)]"

record TextChunk =
  tc_text :: string
  tc_start_char :: int
  tc_end_char :: int
  tc_metadata :: metadata

record TextChunker =
  chunk_size :: int
  overlap :: int
  preserve_structure :: bool

definition new_TextChunker :: "int \<Rightarrow> int \<Rightarrow> bool \<Rightarrow> error + TextChunker" where
  "new_TextChunker chunk_size_chars chunk_overlap_chars preserve =
     (if chunk_overlap_chars \<ge> chunk_size_chars
      then Inl (ValueError ''Overlap must be less than chunk size'')
      else Inr \<lparr>chunk_size = chunk_size_chars, overlap = chunk_overlap_chars,
                preserve_structure = preserve\<rparr>)"

definition copy_metadata :: "metadata option \<Rightarrow> metadata" where
  "copy_metadata md = (case md of None \<Rightarrow> [] | Some d \<Rightarrow> d)"

subsection \<open>Sliding window\<close>

text \<open>\<open>s[k]\<close> for an arbitrary integer: a negative index counts from the end.\<close>

definition str_index :: "string \<Rightarrow> int \<Rightarrow> error + char" where
  "str_index s k =
     (let j = (if k < 0 then int (length s) + k else k)
      in if 0 \<le> j \<and> j < int (length s) then Inr (s ! nat j) else Inl IndexError)"

text \<open>
  One window of \<open>_chunk_sliding_window\<close>, starting at \<open>i\<close>.  When the window stops in the
  middle of the text on a non-space character, the last at most 50 characters of the
  window are searched backwards for a space and the window is cut before the first one
  found (\<open>snap_back\<close> is \<open>None\<close> when there is none).  A window that is blank after the
  cut gives no chunk.
\<close>

definition snap_back :: "string \<Rightarrow> string option" where
  "snap_back chunk_text =
     map_option (\<lambda>j. take (length chunk_text - (j + 1)) chunk_text)
       (find (\<lambda>j. is_space (chunk_text ! (length chunk_text - (j + 1))))
          [0..<min 50 (length chunk_text)])"

definition emit_window :: "metadata option \<Rightarrow> nat \<Rightarrow> string \<Rightarrow> int \<Rightarrow> TextChunk list" where
  "emit_window md i chunk_text end =
     (if strip chunk_text \<noteq> []
      then [\<lparr>tc_text = strip chunk_text, tc_start_char = int i, tc_end_char = end,
             tc_metadata = copy_metadata md\<rparr>]
      else [])"

definition window ::
  "TextChunker \<Rightarrow> string \<Rightarrow> metadata option \<Rightarrow> nat \<Rightarrow> error + TextChunk list" where
  "window c text md i =
     (let end = min (int i + chunk_size c) (int (length text));
          chunk_text = slice text (int i) end
      in if end < int (length text)
         then (case str_index text end of
                 Inl e \<Rightarrow> Inl e
               | Inr ch \<Rightarrow>
                   if \<not> is_space ch
                   then (case snap_back chunk_text of
                           Some trimmed \<Rightarrow>
                             Inr (emit_window md i trimmed (int i + int (length trimmed)))
                         | None \<Rightarrow> Inr (emit_window md i chunk_text end))
                   else Inr (emit_window md i chunk_text end))
         else Inr (emit_window md i chunk_text end))"

text \<open>
  The loop \<open>for i in range(0, len(text), chunk_size - overlap)\<close>; the constructor makes
  the step positive.  The first window that raises ends the loop.
\<close>

function sliding_from ::
  "TextChunker \<Rightarrow> string \<Rightarrow> metadata option \<Rightarrow> nat \<Rightarrow> error + TextChunk list" where
  "sliding_from c text md i =
     (if i < length text \<and> 0 < chunk_size c - overlap c
      then (case window c text md i of
              Inl e \<Rightarrow> Inl e
            | Inr w \<Rightarrow>
                (case sliding_from c text md (i + nat (chunk_size c - overlap c)) of
                   Inl e \<Rightarrow> Inl e
                 | Inr rest \<Rightarrow> Inr (w @ rest)))
      else Inr [])"
  by pat_completeness auto
termination
  by (relation "measure (\<lambda>(c, text, md, i). length text - i)") auto

declare sliding_from.simps [simp del]

definition chunk_sliding_window ::
  "TextChunker \<Rightarrow> string \<Rightarrow> metadata option \<Rightarrow> error + TextChunk list" where
  "chunk_sliding_window c text md =
     (if chunk_size c - overlap c = 0
      then Inl (ValueError ''range() arg 3 must not be zero'')
      else sliding_from c text md 0)"

subsection \<open>Paragraph grouping\<close>

text \<open>
  \<open>re.split(r'\n\s*\n', text)\<close>.  A separator starts at a line feed and runs, greedily,
  up to the last line feed of the whitespace that follows it; \<open>separator_rest\<close> gives the
  number of characters of the separator after its first line feed.
\<close>

fun last_newline :: "string \<Rightarrow> nat option" where
  "last_newline [] = None"
| "last_newline (c # cs) =
     (case last_newline cs of
        Some k \<Rightarrow> Some (Suc k)
      | None \<Rightarrow> if c = newline then Some 0 else None)"

definition separator_rest :: "string \<Rightarrow> nat option" where
  "separator_rest rest = map_option Suc (last_newline (takeWhile is_space rest))"

fun split_from :: "nat \<Rightarrow> string \<Rightarrow> string \<Rightarrow> string list" where
  "split_from skip piece [] = [piece]"
| "split_from (Suc k) piece (c # cs) = split_from k piece cs"
| "split_from 0 piece (c # cs) =
     (if c = newline
      then (case separator_rest cs of
              Some m \<Rightarrow> piece # split_from m [] cs
            | None \<Rightarrow> split_from 0 (piece @ [c]) cs)
      else split_from 0 (piece @ [c]) cs)"

definition split_paragraphs :: "string \<Rightarrow> string list" where
  "split_paragraphs text = split_from 0 [] text"

definition get_overlap_text :: "TextChunker \<Rightarrow> string \<Rightarrow> string" where
  "get_overlap_text c text =
     (if int (length text) \<le> overlap c then text
      else
        let overlap_text = slice_from text (- overlap c)
        in (case str_find overlap_text '' '' 0 of
              Some space_pos \<Rightarrow>
                if space_pos > 0 then drop (space_pos + 1) overlap_text else overlap_text
            | None \<Rightarrow> overlap_text))"

record structure_state =
  chunks_out :: "TextChunk list"
  current_chunk :: string
  current_start :: int
  text_pos :: nat

definition add_paragraph ::
  "TextChunker \<Rightarrow> string \<Rightarrow> metadata option \<Rightarrow> structure_state \<Rightarrow> string \<Rightarrow> structure_state" where
  "add_paragraph c text md st raw_para =
     (let para = strip raw_para in
      if para = [] then st
      else
        let para_start = (case str_find text para (text_pos st) of
                            None \<Rightarrow> text_pos st | Some p \<Rightarrow> p);
            st = st\<lparr>text_pos := para_start + length para\<rparr>
        in if int (length (current_chunk st)) + int (length para) + 2 > chunk_size c
              \<and> current_chunk st \<noteq> []
           then
             let chunk_end = current_start st + int (length (current_chunk st));
                 chunk = \<lparr>tc_text = strip (current_chunk st),
                          tc_start_char = current_start st, tc_end_char = chunk_end,
                          tc_metadata = copy_metadata md\<rparr>;
                 overlap_text = get_overlap_text c (current_chunk st);
                 overlap_start = max 0 (chunk_end - int (length overlap_text))
             in st\<lparr>chunks_out := chunks_out st @ [chunk],
                    current_chunk := overlap_text @ [newline, newline] @ para,
                    current_start := overlap_start\<rparr>
           else if current_chunk st \<noteq> []
           then st\<lparr>current_chunk := current_chunk st @ [newline, newline] @ para\<rparr>
           else st\<lparr>current_chunk := para, current_start := int para_start\<rparr>)"

definition chunk_with_structure :: "TextChunker \<Rightarrow> string \<Rightarrow> metadata option \<Rightarrow> TextChunk list" where
  "chunk_with_structure c text md =
     (let st0 = \<lparr>chunks_out = [], current_chunk = [], current_start = 0, text_pos = 0\<rparr>;
          st = foldl (add_paragraph c text md) st0 (split_paragraphs text)
      in if strip (current_chunk st) \<noteq> []
         then chunks_out st @
                [\<lparr>tc_text = strip (current_chunk st), tc_start_char = current_start st,
                  tc_end_char = current_start st + int (length (current_chunk st)),
                  tc_metadata = copy_metadata md\<rparr>]
         else chunks_out st)"

definition chunk_text_internal ::
  "TextChunker \<Rightarrow> string \<Rightarrow> metadata option \<Rightarrow> error + TextChunk list" where
  "chunk_text_internal c text md =
     (let found = (if preserve_structure c then chunk_with_structure c text md else [])
      in if found = [] then chunk_sliding_window c text md else Inr found)"

subsection \<open>The legacy chunker (backend/fastapi_chat.py, chunk_text)\<close>

text \<open>
  The chat backend's \<open>chunk_text(text, size_chars, overlap)\<close>: windows of \<open>size_chars\<close>
  characters, each starting \<open>overlap\<close> characters before the end of the previous one
  (and not before 0).  The \<open>while\<close> loop does not end when the step
  \<open>size_chars - overlap\<close> is not positive and the text is not empty; the result is
  \<open>None\<close> then.
\<close>

partial_function (option) legacy_loop ::
  "string \<Rightarrow> int \<Rightarrow> int \<Rightarrow> int \<Rightarrow> string list \<Rightarrow> string list option" where
  "legacy_loop text size_chars overlap_chars start found =
     (if start < int (length text)
      then legacy_loop text size_chars overlap_chars
             (max 0 (start + size_chars - overlap_chars))
             (found @ [slice text start (start + size_chars)])
      else Some found)"

declare legacy_loop.simps [code]

definition legacy_chunk_text :: "string \<Rightarrow> int \<Rightarrow> int \<Rightarrow> string list option" where
  "legacy_chunk_text text size_chars overlap_chars =
     legacy_loop text size_chars overlap_chars 0 []"

subsection \<open>TextChunker.chunk_text\<close>

text \<open>
  \<open>s.find(sub, start)\<close> for an arbitrary integer start: a negative start counts from
  the end, a start beyond the end finds nothing.
\<close>

definition py_find :: "string \<Rightarrow> string \<Rightarrow> int \<Rightarrow> nat option" where
  "py_find s sub start =
     (if start > int (length s) then None
      else str_find s sub (slice_index (length s) start))"

text \<open>
  The branch of \<open>chunk_text\<close> that uses the legacy chunker: each of its chunks is
  located in the text with \<open>find\<close>, from \<open>overlap\<close> characters before the end of the
  previous one; a chunk that is not found is given the search position.
\<close>

fun locate_chunks ::
  "TextChunker \<Rightarrow> string \<Rightarrow> metadata option \<Rightarrow> int \<Rightarrow> string list \<Rightarrow> TextChunk list" where
  "locate_chunks c text md current_pos [] = []"
| "locate_chunks c text md current_pos (piece # rest) =
     (let start_pos = (case py_find text piece current_pos of
                         None \<Rightarrow> current_pos | Some i \<Rightarrow> int i);
          end_pos = start_pos + int (length piece)
      in \<lparr>tc_text = piece, tc_start_char = start_pos, tc_end_char = end_pos,
          tc_metadata = copy_metadata md\<rparr>
         # locate_chunks c text md (start_pos + int (length piece) - overlap c) rest)"

text \<open>
  \<open>chunk_text\<close> returns no chunk for a text that is blank after stripping.  Otherwise
  it tries to import the chat backend's chunker: \<open>legacy_available\<close> tells whether the
  import succeeds.  If it does, the legacy chunks are used; on \<open>ImportError\<close> the
  chunker's own \<open>_chunk_text_internal\<close> is.  The result is \<open>None\<close> when the legacy loop
  does not end.
\<close>

definition chunk_text ::
  "bool \<Rightarrow> TextChunker \<Rightarrow> string \<Rightarrow> metadata option \<Rightarrow> (error + TextChunk list) option" where
  "chunk_text legacy_available c text md =
     (if strip text = [] then Some (Inr [])
      else if legacy_available
      then (case legacy_chunk_text text (chunk_size c) (overlap c) of
              None \<Rightarrow> None
            | Some existing_chunks \<Rightarrow> Some (Inr (locate_chunks c text md 0 existing_chunks)))
      else Some (chunk_text_internal c text md))"

text \<open>
  Coverage: every character position of a text of length \<open>n\<close> lies in the range
  \<open>[start_char, end_char)\<close> of some chunk.
\<close>

definition covered :: "TextChunk list \<Rightarrow> int \<Rightarrow> bool" where
  "covered cs p = (\<exists>ch \<in> set cs. tc_start_char ch \<le> p \<and> p < tc_end_char ch)"

definition covers :: "TextChunk list \<Rightarrow> nat \<Rightarrow> bool" where
  "covers cs n = (\<forall>p < n. covered cs (int p))"

section \<open>File processor (memory/processing/file_processor.py)\<close>

text \<open>
  The world outside the program.  The file system maps a path to a node (absent: the
  path does not exist) with its stat fields and its decoded content.  The hash
  functions, the formatting of a float, the MIME guess and the generator behind
  \<open>uuid.uuid4()\<close> are parameters; the \<open>k\<close>-th identifier drawn in a run is
  \<open>uuid_gen k\<close>, and the number of identifiers drawn so far is part of the state.
  \<open>clock\<close> is the reading of \<open>datetime.now()\<close>.
\<close>

record stat_result =
  st_size :: nat
  st_mtime :: real
  st_ctime :: real

record fs_node =
  node_is_file :: bool
  node_stat :: stat_result
  node_content :: string

text \<open>
  The file processor holds two chunker objects, a \<open>TextChunker\<close> and a
  \<open>MarkdownChunker\<close>; here it holds their \<open>chunk_text\<close> methods.
\<close>

type_synonym chunker = "string \<Rightarrow> metadata option \<Rightarrow> error + TextChunk list"

record FileProcessor =
  max_file_size :: nat
  supported_extensions :: "string list"
  text_chunker :: chunker
  markdown_chunker :: chunker

record World =
  filesystem :: "string \<rightharpoonup> fs_node"
  rglob :: "string \<Rightarrow> error + string list"
  md5 :: "string \<Rightarrow> string"
  sha256 :: "string \<Rightarrow> string"
  uuid_gen :: "nat \<Rightarrow> string"
  guess_type :: "string \<Rightarrow> json"
  str_float :: "real \<Rightarrow> string"
  clock :: real
  elapsed_ms :: real

text \<open>\<open>Path.suffix\<close> and \<open>str.lower\<close> and \<open>str.endswith\<close>.\<close>

definition basename :: "string \<Rightarrow> string" where
  "basename path = rev (takeWhile (\<lambda>ch. ch \<noteq> CHR ''/'') (rev path))"

definition suffix :: "string \<Rightarrow> string" where
  "suffix path =
     (let name = basename path;
          after = length (takeWhile (\<lambda>ch. ch \<noteq> CHR ''.'') (rev name))
      in if after < length name \<and> 0 < after \<and> after + 1 < length name
         then drop (length name - (after + 1)) name
         else [])"

definition lower_char :: "char \<Rightarrow> char" where
  "lower_char ch =
     (if (65::nat) \<le> of_char ch \<and> (of_char ch :: nat) \<le> 90
      then char_of ((of_char ch :: nat) + 32) else ch)"

definition lower :: "string \<Rightarrow> string" where
  "lower s = map lower_char s"

definition endswith :: "string \<Rightarrow> string \<Rightarrow> bool" where
  "endswith s suf = (length suf \<le> length s \<and> drop (length s - length suf) s = suf)"

definition is_supported_file :: "FileProcessor \<Rightarrow> string \<Rightarrow> bool" where
  "is_supported_file fp file_path = (lower (suffix file_path) \<in> set (supported_extensions fp))"

definition or_empty :: "metadata option \<Rightarrow> metadata" where
  "or_empty md = (case md of None \<Rightarrow> [] | Some d \<Rightarrow> d)"

text \<open>
  \<open>_create_chunks\<close>: the markdown chunker for a path ending in \<open>.md\<close>, the text chunker
  otherwise; one fresh identifier per chunk.  Every chunk gets \<open>file_info.id\<close> as its
  \<open>file_id\<close>, the identifier the file info has at this moment.
\<close>

fun to_chunk_infos ::
  "World \<Rightarrow> string \<Rightarrow> nat \<Rightarrow> nat \<Rightarrow> TextChunk list \<Rightarrow> ChunkInfo list" where
  "to_chunk_infos w file_id drawn i [] = []"
| "to_chunk_infos w file_id drawn i (text_chunk # rest) =
     \<lparr>ci_id = uuid_gen w drawn, ci_file_id = file_id, ci_text = tc_text text_chunk,
      ci_start_char = tc_start_char text_chunk, ci_end_char = tc_end_char text_chunk,
      ci_metadata =
        dict_update [(''chunk_index'', JNum (real i)),
                     (''chunk_hash'', JStr (sha256 w (tc_text text_chunk)))]
          (tc_metadata text_chunk),
      ci_created_at = clock w\<rparr>
     # to_chunk_infos w file_id (drawn + 1) (i + 1) rest"

definition create_chunks ::
  "World \<Rightarrow> FileProcessor \<Rightarrow> nat \<Rightarrow> FileInfo \<Rightarrow> string
     \<Rightarrow> (error + ChunkInfo list) \<times> nat" where
  "create_chunks w fp drawn file_info content =
     (let chunk_metadata =
            [(''file_type'', dict_get (fi_metadata file_info) ''extension'' (JStr [])),
             (''mime_type'', dict_get (fi_metadata file_info) ''mime_type'' (JStr [])),
             (''source_file'', JStr (fi_path file_info))]
      in case (if endswith (fi_path file_info) ''.md''
               then markdown_chunker fp content (Some chunk_metadata)
               else text_chunker fp content (Some chunk_metadata)) of
           Inl e \<Rightarrow> (Inl e, drawn)
         | Inr text_chunks \<Rightarrow>
             (Inr (to_chunk_infos w (fi_id file_info) drawn 0 text_chunks),
              drawn + length text_chunks))"

text \<open>
  \<open>process_text\<close> as the manager calls it: no \<open>source_id\<close> and no \<open>title\<close>, so the file
  identifier is a fresh one and the path is \<open>text_\<close> followed by it.
\<close>

definition process_text ::
  "World \<Rightarrow> FileProcessor \<Rightarrow> nat \<Rightarrow> string \<Rightarrow> metadata option
     \<Rightarrow> (error + FileInfo \<times> ChunkInfo list) \<times> nat" where
  "process_text w fp drawn text md =
     (let file_id = uuid_gen w drawn;
          file_info =
            \<lparr>fi_id = file_id, fi_path = ''text_'' @ file_id, fi_hash = md5 w text,
             fi_size = length text, fi_mtime = clock w,
             fi_metadata = dict_update [(''type'', JStr ''text''), (''title'', JNull)]
                             (or_empty md),
             fi_created_at = clock w, fi_updated_at = clock w\<rparr>
      in case create_chunks w fp (drawn + 1) file_info text of
           (Inl e, drawn') \<Rightarrow> (Inl e, drawn')
         | (Inr chunk_infos, drawn') \<Rightarrow> (Inr (file_info, chunk_infos), drawn'))"

definition create_file_info ::
  "World \<Rightarrow> nat \<Rightarrow> string \<Rightarrow> fs_node \<Rightarrow> string \<Rightarrow> metadata option \<Rightarrow> FileInfo" where
  "create_file_info w drawn file_path node content md =
     \<lparr>fi_id = uuid_gen w drawn, fi_path = file_path, fi_hash = md5 w content,
      fi_size = length content, fi_mtime = st_mtime (node_stat node),
      fi_metadata = dict_update [(''extension'', JStr (suffix file_path)),
                                 (''mime_type'', guess_type w file_path),
                                 (''encoding'', JStr ''utf-8'')]
                      (or_empty md),
      fi_created_at = st_ctime (node_stat node),
      fi_updated_at = st_mtime (node_stat node)\<rparr>"

definition process_file ::
  "World \<Rightarrow> FileProcessor \<Rightarrow> nat \<Rightarrow> string \<Rightarrow> metadata option
     \<Rightarrow> (error + FileInfo \<times> ChunkInfo list) \<times> nat" where
  "process_file w fp drawn file_path md =
     (case filesystem w file_path of
        None \<Rightarrow> (Inl (FileNotFoundError file_path), drawn)
      | Some node \<Rightarrow>
          if \<not> node_is_file node then (Inl (ValueError ''Not a file''), drawn)
          else if st_size (node_stat node) > max_file_size fp
          then (Inl (ValueError ''File too large''), drawn)
          else if \<not> is_supported_file fp file_path
          then (Inl (ValueError ''Unsupported file type''), drawn)
          else
            let content = node_content node;
                file_info = create_file_info w drawn file_path node content md
            in (case create_chunks w fp (drawn + 1) file_info content of
                  (Inl e, drawn') \<Rightarrow> (Inl e, drawn')
                | (Inr chunk_infos, drawn') \<Rightarrow> (Inr (file_info, chunk_infos), drawn')))"

text \<open>
  \<open>get_file_hash\<close> hashes the string \<open>path:size:mtime\<close>, not the content.
  \<open>is_file_changed\<close> compares it with the stored hash when the modification time is
  within one second of the stored one.
\<close>

definition get_file_hash :: "World \<Rightarrow> string \<Rightarrow> fs_node \<Rightarrow> string" where
  "get_file_hash w file_path node =
     md5 w (file_path @ '':'' @ str_nat (st_size (node_stat node)) @ '':'' @
            str_float w (st_mtime (node_stat node)))"

definition is_file_changed :: "World \<Rightarrow> string \<Rightarrow> string \<Rightarrow> real \<Rightarrow> bool" where
  "is_file_changed w file_path stored_hash stored_mtime =
     (case filesystem w file_path of
        None \<Rightarrow> True
      | Some node \<Rightarrow>
          if \<bar>st_mtime (node_stat node) - stored_mtime\<bar> > 1 then True
          else get_file_hash w file_path node \<noteq> stored_hash)"

section \<open>Memory manager (memory/manager.py)\<close>



record MemoryManager =
  storage :: SQLiteBackend
  embeddings :: EmbeddingManager
  file_processor :: FileProcessor
  watch_directories :: "string list"
  is_initialized :: bool
  last_sync :: "real option"
  sync_in_progress :: bool
  uuids_drawn :: nat

definition embed_single_shared ::
  "World \<Rightarrow> MemoryManager \<Rightarrow> string \<Rightarrow> (error + embedding option) \<times> MemoryManager" where
  "embed_single_shared w m t =
     (let em = embeddings m;
          em_in = em\<lparr>storage_backend :=
                      (case storage_backend em of None \<Rightarrow> None | Some _ \<Rightarrow> Some (storage m))\<rparr>
      in case embed_single (clock w) em_in t of
           (r, em_out) \<Rightarrow>
             (r, m\<lparr>embeddings := em_out,
                    storage := (case storage_backend em_out of
                                  None \<Rightarrow> storage m | Some sb \<Rightarrow> sb)\<rparr>))"

text \<open>The loop \<open>for chunk in chunks: embed_single; add_chunk\<close> of both ingest operations.\<close>

fun store_chunks ::
  "World \<Rightarrow> MemoryManager \<Rightarrow> ChunkInfo list \<Rightarrow> (error + unit) \<times> MemoryManager" where
  "store_chunks w m [] = (Inr (), m)"
| "store_chunks w m (chunk_info # rest) =
     (case embed_single_shared w m (ci_text chunk_info) of
        (Inl e, m1) \<Rightarrow> (Inl e, m1)
      | (Inr emb, m1) \<Rightarrow>
          (case add_chunk (storage m1) chunk_info emb of
             Inl e \<Rightarrow> (Inl e, m1)
           | Inr (_, sb) \<Rightarrow> store_chunks w (m1\<lparr>storage := sb\<rparr>) rest))"

text \<open>
  \<open>initialize\<close> builds the components from the configuration and sets
  \<open>is_initialized\<close>; when a step raises, it closes what it has built and raises again.
  Here it is a parameter of the operations, called by each of them when the manager is
  not initialized: it returns the state it leaves, with the exception if it raised.
\<close>

type_synonym initializer = "MemoryManager \<Rightarrow> (error + unit) \<times> MemoryManager"

definition ensure_initialized ::
  "initializer \<Rightarrow> MemoryManager \<Rightarrow> (error + unit) \<times> MemoryManager" where
  "ensure_initialized initialize m = (if is_initialized m then (Inr (), m) else initialize m)"

definition ingest_text ::
  "World \<Rightarrow> initializer \<Rightarrow> MemoryManager \<Rightarrow> string \<Rightarrow> metadata option
     \<Rightarrow> (error + string) \<times> MemoryManager" where
  "ingest_text w initialize m text md =
     (case ensure_initialized initialize m of
        (Inl e, m0) \<Rightarrow> (Inl e, m0)
      | (Inr _, m0) \<Rightarrow>
          (case process_text w (file_processor m0) (uuids_drawn m0) text md of
             (Inl e, drawn) \<Rightarrow> (Inl e, m0\<lparr>uuids_drawn := drawn\<rparr>)
           | (Inr (file_info, chunk_infos), drawn) \<Rightarrow>
               (let (file_id, sb) = add_file (storage m0) file_info;
                    m1 = m0\<lparr>uuids_drawn := drawn, storage := sb\<rparr>
                in case store_chunks w m1 chunk_infos of
                     (Inl e, m2) \<Rightarrow> (Inl e, m2)
                   | (Inr _, m2) \<Rightarrow> (Inr file_id, m2))))"

text \<open>
  \<open>ingest_file\<close>.  For a path that is already stored and found changed, the old chunks
  are deleted, the file is processed again, the new file info takes over the stored
  identifier and the file row is updated; the chunks that \<open>process_file\<close> returned are
  then stored as they are.
\<close>

definition ingest_file ::
  "World \<Rightarrow> initializer \<Rightarrow> MemoryManager \<Rightarrow> string \<Rightarrow> metadata option
     \<Rightarrow> (error + string) \<times> MemoryManager" where
  "ingest_file w initialize m file_path md =
     (case ensure_initialized initialize m of
        (Inl e, m0) \<Rightarrow> (Inl e, m0)
      | (Inr _, m0) \<Rightarrow>
          (let existing_file = get_file_by_path (storage m0) file_path
           in case (case existing_file of
                      None \<Rightarrow> Inr m0
                    | Some existing \<Rightarrow>
                        if \<not> is_file_changed w file_path (fi_hash existing) (fi_mtime existing)
                        then Inl (fi_id existing)
                        else Inr (m0\<lparr>storage :=
                                    snd (delete_chunks_by_file (storage m0) (fi_id existing))\<rparr>)) of
                Inl unchanged_id \<Rightarrow> (Inr unchanged_id, m0)
              | Inr m1 \<Rightarrow>
                  (case process_file w (file_processor m1) (uuids_drawn m1) file_path md of
                     (Inl e, drawn) \<Rightarrow> (Inl e, m1\<lparr>uuids_drawn := drawn\<rparr>)
                   | (Inr (file_info, chunk_infos), drawn) \<Rightarrow>
                       (let m2 = m1\<lparr>uuids_drawn := drawn\<rparr>
                        in case (case existing_file of
                                   Some existing \<Rightarrow>
                                     (case update_file (clock w) (storage m2)
                                             (file_info\<lparr>fi_id := fi_id existing\<rparr>) of
                                        Inl e \<Rightarrow> Inl e
                                      | Inr (_, sb) \<Rightarrow> Inr (fi_id existing, sb))
                                 | None \<Rightarrow> Inr (add_file (storage m2) file_info)) of
                             Inl e \<Rightarrow> (Inl e, m2)
                           | Inr (file_id, sb) \<Rightarrow>
                               (case store_chunks w (m2\<lparr>storage := sb\<rparr>) chunk_infos of
                                  (Inl e, m3) \<Rightarrow> (Inl e, m3)
                                | (Inr _, m3) \<Rightarrow> (Inr file_id, m3))))))"









section \<open>Concrete states used in the evaluations\<close>

definition file1 :: FileInfo where
  "file1 = \<lparr>fi_id = ''f1'', fi_path = ''notes.txt'', fi_hash = ''h1'', fi_size = 5,
            fi_mtime = 0, fi_metadata = [], fi_created_at = 0, fi_updated_at = 0\<rparr>"

definition chunk1 :: ChunkInfo where
  "chunk1 = \<lparr>ci_id = ''c1'', ci_file_id = ''f1'', ci_text = ''hello'', ci_start_char = 0,
             ci_end_char = 5, ci_metadata = [], ci_created_at = 0\<rparr>"

definition one_file_backend :: SQLiteBackend where
  "one_file_backend =
     (case add_chunk (snd (add_file (empty_backend True) file1)) chunk1
             (Some (replicate 384 1)) of
        Inr (_, s) \<Rightarrow> s
      | Inl _ \<Rightarrow> empty_backend True)"

definition length_provider :: EmbeddingProvider where
  "length_provider =
     \<lparr>p_name = ''local'', p_model = ''m'',
      p_embed = (\<lambda>texts. Inr (map (\<lambda>t. [real (length t)]) texts)),
      compute_text_hash = (\<lambda>t. t)\<rparr>"

definition warm_manager :: EmbeddingManager where
  "warm_manager =
     \<lparr>primary_provider_name = ''local'', fallback_provider_name = ''local'',
      cache_enabled = True,
      storage_backend =
        Some (cache_embedding 0 (empty_backend False) ''bb'' ''local'' ''m'' [9]),
      providers = [(''local'', length_provider)],
      provider_status = [''local'' \<mapsto> True],
      failure_counts = [''local'' \<mapsto> 0],
      max_failures = 2\<rparr>"




definition keyword_only_options :: SearchOptions where
  "keyword_only_options =
     \<lparr>mode = Hybrid, max_results = 10, min_score = 0.3, sources = None,
      vector_weight = Some 0, keyword_weight = Some 1\<rparr>"

definition span_a :: SearchResult where
  "span_a = \<lparr>sr_file_id = ''f1'', sr_file_path = ''notes.txt'', sr_text = ''hello'',
             sr_score = 0.9, sr_start_char = 0, sr_end_char = 5, sr_metadata = [],
             sr_excerpt = None\<rparr>"

definition default_chunker :: TextChunker where
  "default_chunker = \<lparr>chunk_size = 1000, overlap = 200, preserve_structure = True\<rparr>"

definition small_chunker :: TextChunker where
  "small_chunker = \<lparr>chunk_size = 6, overlap = 0, preserve_structure = False\<rparr>"

definition two_paragraphs :: string where
  "two_paragraphs = [CHR ''a'', newline, newline, newline, CHR ''b'']"



text \<open>
  A small world: the directory \<open>docs\<close> with the one file \<open>docs/a.txt\<close>, whose content is
  \<open>hello world\<close>.  \<open>md5\<close> and \<open>sha256\<close> are given on the strings they meet here, with
  their true values, and map every other string to the digest of the empty string;
  the one modification time of this world is formatted as Python does, the MIME type
  guessed for a path is that of a \<open>.txt\<close> file, and the \<open>k\<close>-th identifier is \<open>uuid-k\<close>.
  In \<open>unreadable_world\<close> listing a directory raises.
\<close>

definition md5_table :: "string \<Rightarrow> string" where
  "md5_table s =
     (if s = ''hello world'' then ''5eb63bbbe01eeed093cb22bb8f5acdc3''
      else if s = ''docs/a.txt:11:1700000000.0'' then ''2a92b48fac502a8ca01a06eb9a7695eb''
      else ''d41d8cd98f00b204e9800998ecf8427e'')"

definition sha256_table :: "string \<Rightarrow> string" where
  "sha256_table s =
     (if s = ''hello world''
      then ''b94d27b9934d3e08a52e52d7da7dabfac484efe37a5380ee9088f7ace2efcde9''
      else ''e3b0c44298fc1c149afbf4c8996fb92427ae41e4649b934ca495991b7852b855'')"

definition docs_dir :: fs_node where
  "docs_dir = \<lparr>node_is_file = False,
               node_stat = \<lparr>st_size = 4096, st_mtime = 1700000000, st_ctime = 1700000000\<rparr>,
               node_content = []\<rparr>"

definition a_txt :: fs_node where
  "a_txt = \<lparr>node_is_file = True,
            node_stat = \<lparr>st_size = 11, st_mtime = 1700000000, st_ctime = 1700000000\<rparr>,
            node_content = ''hello world''\<rparr>"

definition demo_world :: World where
  "demo_world =
     \<lparr>filesystem = [''docs'' \<mapsto> docs_dir, ''docs/a.txt'' \<mapsto> a_txt],
      rglob = (\<lambda>d. Inr [''docs/a.txt'']),
      md5 = md5_table, sha256 = sha256_table,
      uuid_gen = (\<lambda>k. ''uuid-'' @ str_nat k),
      guess_type = (\<lambda>p. JStr ''text/plain''),
      str_float = (\<lambda>x. if x = 1700000000 then ''1700000000.0'' else ''0.0''),
      clock = 1700000100, elapsed_ms = 5\<rparr>"


text \<open>An embedding manager with the one provider \<open>local\<close> and no cache.\<close>

definition local_manager :: EmbeddingManager where
  "local_manager =
     \<lparr>primary_provider_name = ''local'', fallback_provider_name = ''local'',
      cache_enabled = False, storage_backend = None,
      providers = [(''local'', length_provider)],
      provider_status = [''local'' \<mapsto> True],
      failure_counts = [''local'' \<mapsto> 0],
      max_failures = 2\<rparr>"

text \<open>
  The file processor's \<open>TextChunker(1000, 200)\<close>, in an installation where the import of
  the legacy chunker fails, so that \<open>chunk_text\<close> always returns.  The \<open>MarkdownChunker\<close>
  is not modelled: no path of this world ends in \<open>.md\<close>, the markdown chunker is never
  called, and the text chunker stands in its place.
\<close>

definition demo_text_chunker :: chunker where
  "demo_text_chunker text md = the (chunk_text False default_chunker text md)"

definition demo_processor :: FileProcessor where
  "demo_processor =
     \<lparr>max_file_size = 10485760, supported_extensions = [''.md'', ''.txt''],
      text_chunker = demo_text_chunker, markdown_chunker = demo_text_chunker\<rparr>"

text \<open>
  An initialized manager with an empty store that watches \<open>docs\<close>, and an \<open>initialize\<close>
  that raises because the database cannot be opened.
\<close>

definition demo_manager :: MemoryManager where
  "demo_manager =
     \<lparr>storage = empty_backend False, embeddings = local_manager,
      file_processor = demo_processor, watch_directories = [''docs''],
      is_initialized = True, last_sync = None, sync_in_progress = False,
      uuids_drawn = 0\<rparr>"

definition no_initialize :: initializer where
  "no_initialize m = (Inl (OSError ''unable to open database file''), m)"

text \<open>The manager after one and after two ingestions of the file, and of the raw text.\<close>

definition file_once :: MemoryManager where
  "file_once = snd (ingest_file demo_world no_initialize demo_manager ''docs/a.txt'' None)"

definition file_twice :: MemoryManager where
  "file_twice = snd (ingest_file demo_world no_initialize file_once ''docs/a.txt'' None)"



text \<open>
  The rows these runs store: the file row of a raw text with a given identifier, the
  file row of \<open>docs/a.txt\<close> with a given update time, and the one chunk row of
  \<open>hello world\<close>.
\<close>

definition text_file :: "string \<Rightarrow> FileInfo" where
  "text_file file_id =
     \<lparr>fi_id = file_id, fi_path = ''text_'' @ file_id,
      fi_hash = ''5eb63bbbe01eeed093cb22bb8f5acdc3'', fi_size = 11, fi_mtime = 1700000100,
      fi_metadata = [(''type'', JStr ''text''), (''title'', JNull)],
      fi_created_at = 1700000100, fi_updated_at = 1700000100\<rparr>"

definition a_txt_info :: "real \<Rightarrow> FileInfo" where
  "a_txt_info updated =
     \<lparr>fi_id = ''uuid-0'', fi_path = ''docs/a.txt'',
      fi_hash = ''5eb63bbbe01eeed093cb22bb8f5acdc3'', fi_size = 11, fi_mtime = 1700000000,
      fi_metadata = [(''extension'', JStr ''.txt''), (''mime_type'', JStr ''text/plain''),
                     (''encoding'', JStr ''utf-8'')],
      fi_created_at = 1700000000, fi_updated_at = updated\<rparr>"

definition hello_row ::
  "nat \<Rightarrow> string \<Rightarrow> string \<Rightarrow> json \<Rightarrow> json \<Rightarrow> string \<Rightarrow> chunk_row" where
  "hello_row n chunk_id file_id file_type mime_type source_file =
     \<lparr>rowid = n,
      chunk = \<lparr>ci_id = chunk_id, ci_file_id = file_id, ci_text = ''hello world'',
               ci_start_char = 0, ci_end_char = 11,
               ci_metadata =
                 [(''chunk_index'', JNum 0),
                  (''chunk_hash'',
                   JStr ''b94d27b9934d3e08a52e52d7da7dabfac484efe37a5380ee9088f7ace2efcde9''),
                  (''file_type'', file_type), (''mime_type'', mime_type),
                  (''source_file'', JStr source_file)],
               ci_created_at = 1700000100\<rparr>,
      embedding_blob = Some [11]\<rparr>"



section \<open>File deletion\<close>

lemma delete_file_keeps_indexes:
  "chunks_fts (snd (delete_file s file_id)) = chunks_fts s \<and>
   chunks_vec (snd (delete_file s file_id)) = chunks_vec s"
  by (simp add: delete_file_def delete_files_where_def Let_def)

lemma delete_file_removes_rows:
  assumes "\<exists>f \<in> set (files s). fi_id f = file_id"
  shows "(\<forall>f \<in> set (files (snd (delete_file s file_id))). fi_id f \<noteq> file_id) \<and>
         (\<forall>r \<in> set (chunks (snd (delete_file s file_id))). ci_file_id (chunk r) \<noteq> file_id)"
  using assms by (auto simp add: delete_file_def delete_files_where_def Let_def)

lemma one_file_backend_eq:
  "one_file_backend =
     \<lparr>files = [file1],
      chunks = [\<lparr>rowid = 1, chunk = chunk1, embedding_blob = Some (replicate 384 1)\<rparr>],
      chunks_fts = [(1, ''hello'')],
      chunks_vec = [(1, replicate 384 1)],
      embedding_cache = [], seq = 1, has_vector_support = True\<rparr>"
  by (simp add: one_file_backend_def add_chunk_def add_file_def delete_files_where_def
      empty_backend_def file1_def chunk1_def dimension_def Let_def)

text \<open>
  Claim C1.  Deleting a file is claimed to remove the file row, the chunk rows of the
  file, and the rows of \<open>chunks_fts\<close> and \<open>chunks_vec\<close> that belong to those chunks.  On a
  database holding one file with one embedded chunk, \<open>delete_file\<close> removes the file row
  and (by the cascade) the chunk row, but the chunk's full-text row and vector row are
  both still there afterwards; \<open>delete_chunks_by_file\<close> on the same database removes
  them.
\<close>

theorem delete_file_leaves_index_rows:
  "fst (delete_file one_file_backend ''f1'') = True \<and>
   files (snd (delete_file one_file_backend ''f1'')) = [] \<and>
   chunks (snd (delete_file one_file_backend ''f1'')) = [] \<and>
   chunks_fts (snd (delete_file one_file_backend ''f1'')) = [(1, ''hello'')] \<and>
   chunks_vec (snd (delete_file one_file_backend ''f1'')) = [(1, replicate 384 1)] \<and>
   chunks_fts (snd (delete_chunks_by_file one_file_backend ''f1'')) = [] \<and>
   chunks_vec (snd (delete_chunks_by_file one_file_backend ''f1'')) = []"
  by (simp add: one_file_backend_eq delete_file_def delete_files_where_def
      delete_chunks_by_file_def file1_def chunk1_def Let_def)

section \<open>Embedding cache keys\<close>

text \<open>
  Claim C4.  Cache entries are claimed to be keyed by the triple (hash, provider, model)
  in every backend.  In the SQLite backend a second entry for the same text hash under
  another provider and model replaces the first one, so the first triple no longer
  yields its vector; the in-memory backend keeps both on the same calls.
\<close>

theorem sqlite_cache_replaces_other_provider:
  "get_cached_embedding
     (cache_embedding 2
        (cache_embedding 1 (empty_backend False) ''h'' ''openai'' ''m1'' [1, 0])
        ''h'' ''voyage'' ''m2'' [0, 1])
     ''h'' ''openai'' ''m1'' = None \<and>
   get_cached_embedding
     (cache_embedding 1 (empty_backend False) ''h'' ''openai'' ''m1'' [1, 0])
     ''h'' ''openai'' ''m1'' = Some [1, 0] \<and>
   mem_get_cached_embedding
     (mem_cache_embedding
        (mem_cache_embedding Map.empty ''h'' ''openai'' ''m1'' [1, 0])
        ''h'' ''voyage'' ''m2'' [0, 1])
     ''h'' ''openai'' ''m1'' = Some [1, 0]"
  by (simp add: get_cached_embedding_def cache_embedding_def empty_backend_def
      mem_get_cached_embedding_def mem_cache_embedding_def cache_key_def)

section \<open>Embedding manager: fallback and cache reassembly\<close>









text \<open>
  Claim C3.  With the cache on, \<open>embed\<close> is claimed to return, at every position, the
  cached vector of a hit and the fresh vector of a miss.  The cache holds the text
  \<open>bb\<close> only.  For the input \<open>[a, bb]\<close> (a miss, then a hit) the second position of
  the result is \<open>None\<close> instead of the cached vector: \<open>cache_hits\<close> has a \<open>None\<close> placeholder
  at each miss, and the loop indexes it with a counter that only counts hits.  For
  \<open>[bb, a]\<close> (a hit, then a miss) the result is as claimed.
\<close>

theorem embed_miss_then_hit:
  "fst (embed 1 warm_manager [''a'', ''bb'']) = Inr [Some [1], None] \<and>
   fst (embed 1 warm_manager [''bb'', ''a'']) = Inr [Some [9], Some [1]]"
  by (simp add: embed_def warm_manager_def length_provider_def get_cached_embeddings_def
      get_cached_embedding_def cache_embedding_def empty_backend_def generate_embeddings_def
      is_provider_available_def failures_def cache_embeddings_def Let_def)

section \<open>Search options: the weights\<close>

lemma nearest_even_error: "\<bar>of_int (nearest_even y) - y\<bar> \<le> 1 / 2"
proof (cases "frac y = 1 / 2 \<and> even \<lfloor>y\<rfloor>")
  case True
  then have "y - of_int \<lfloor>y\<rfloor> = 1 / 2" by (simp add: frac_def)
  then show ?thesis using True by (simp add: nearest_even_def)
next
  case False
  then show ?thesis
    using of_int_round_abs_le [of y] by (auto simp add: nearest_even_def)
qed

text \<open>The rounding error of one operation is at most the unit roundoff \<open>2^-53\<close>, relatively.\<close>

lemma fl_error: "\<bar>fl x - x\<bar> \<le> \<bar>x\<bar> / 2 ^ 53"
proof (cases "x = 0")
  case True
  then show ?thesis by (simp add: fl_def)
next
  case False
  define e where "e = \<lfloor>log 2 \<bar>x\<bar>\<rfloor>"
  define q :: real where "q = 2 powr (of_int e - 52)"
  have qpos: "0 < q" by (simp add: q_def)
  have "of_int e \<le> log 2 \<bar>x\<bar>" by (simp add: e_def)
  then have "2 powr (of_int e) \<le> \<bar>x\<bar>"
    using False by (simp add: le_log_iff)
  moreover have "q = 2 powr (of_int e) / 2 ^ 52"
    by (simp add: q_def powr_diff)
  ultimately have qle: "q / 2 \<le> \<bar>x\<bar> / 2 ^ 53"
    by (simp add: field_simps)
  have "fl x = of_int (nearest_even (x / q)) * q"
    using False by (simp add: fl_def Let_def q_def e_def)
  then have "fl x - x = (of_int (nearest_even (x / q)) - x / q) * q"
    using qpos by (simp add: field_simps)
  then have "\<bar>fl x - x\<bar> = \<bar>of_int (nearest_even (x / q)) - x / q\<bar> * q"
    using qpos by (simp add: abs_mult)
  also have "\<dots> \<le> (1 / 2) * q"
    using nearest_even_error [of "x / q"] qpos by (intro mult_right_mono) simp_all
  finally show ?thesis using qle by simp
qed

text \<open>
  The computed distance \<open>fl (fl (kw + vw) - 1)\<close> is within \<open>4 * 2^-53\<close> of the exact one
  for a sum in [0, 2], and the literal \<open>fl 0.001\<close> within \<open>2^-53\<close> of 0.001.
\<close>

lemma roundoff_numerals:
  "(4::real) / 2 ^ 53 \<le> 1 / 2000000000000000"
  "(1::real) / 2 ^ 53 \<le> 1 / 5000000000000000"
  "(1::real) / 10 ^ 15 = 1 / 1000000000000000"
  by simp_all

lemma computed_distance:
  assumes "0 \<le> s" and "s \<le> 2"
  shows "\<bar>fl (fl s - 1) - (s - 1)\<bar> \<le> 4 / 2 ^ 53"
proof -
  have "\<bar>fl s - s\<bar> \<le> \<bar>s\<bar> / 2 ^ 53" by (rule fl_error)
  also have "\<dots> \<le> 2 / 2 ^ 53"
    using assms by (intro divide_right_mono) simp_all
  finally have d1: "\<bar>fl s - s\<bar> \<le> 2 / 2 ^ 53" .
  have "(2::real) / 2 ^ 53 \<le> 1" by simp
  then have t: "\<bar>fl s - 1\<bar> \<le> 2"
    using d1 assms by linarith
  have "\<bar>fl (fl s - 1) - (fl s - 1)\<bar> \<le> \<bar>fl s - 1\<bar> / 2 ^ 53"
    by (rule fl_error)
  also have "\<dots> \<le> 2 / 2 ^ 53"
    using t by (intro divide_right_mono) simp_all
  finally have d2: "\<bar>fl (fl s - 1) - (fl s - 1)\<bar> \<le> 2 / 2 ^ 53" .
  have "(2::real) / 2 ^ 53 + 2 / 2 ^ 53 = 4 / 2 ^ 53" by simp
  then show ?thesis using d1 d2 by linarith
qed

lemma tolerance_literal: "\<bar>fl 0.001 - 0.001\<bar> \<le> 1 / 2 ^ 53"
proof -
  have "\<bar>fl 0.001 - 0.001\<bar> \<le> \<bar>0.001\<bar> / 2 ^ 53" by (rule fl_error)
  also have "\<dots> \<le> 1 / 2 ^ 53"
    by (intro divide_right_mono) simp_all
  finally show ?thesis .
qed

lemma validate_weights_sum_accepts:
  assumes "0 \<le> vw" "vw \<le> 1" "0 \<le> kw" "kw \<le> 1"
    and "\<bar>(kw + vw) - 1\<bar> \<le> 0.001 - 1 / 10 ^ 15"
  shows "validate_weights_sum (Some kw) (Some (Some vw)) = Inr (Some kw)"
proof -
  have "\<bar>fl (fl (kw + vw) - 1) - ((kw + vw) - 1)\<bar> \<le> 4 / 2 ^ 53"
    using assms by (intro computed_distance) simp_all
  then have d: "\<bar>fl (fl (kw + vw) - 1) - ((kw + vw) - 1)\<bar> \<le> 1 / 2000000000000000"
    using roundoff_numerals(1) by linarith
  have c: "\<bar>fl 0.001 - 1 / 1000\<bar> \<le> 1 / 5000000000000000"
    using tolerance_literal roundoff_numerals(2) by simp
  have m: "\<bar>(kw + vw) - 1\<bar> \<le> 1 / 1000 - 1 / 1000000000000000"
    using assms(5) by simp
  have "\<bar>fl (fl (kw + vw) - 1)\<bar> \<le> fl 0.001"
    using d c m by linarith
  then show ?thesis by (simp add: validate_weights_sum_def)
qed

lemma validate_weights_sum_rejects:
  assumes "0 \<le> vw" "vw \<le> 1" "0 \<le> kw" "kw \<le> 1"
    and "\<bar>(kw + vw) - 1\<bar> \<ge> 0.001 + 1 / 10 ^ 15"
  shows "isl (validate_weights_sum (Some kw) (Some (Some vw)))"
proof -
  have "\<bar>fl (fl (kw + vw) - 1) - ((kw + vw) - 1)\<bar> \<le> 4 / 2 ^ 53"
    using assms by (intro computed_distance) simp_all
  then have d: "\<bar>fl (fl (kw + vw) - 1) - ((kw + vw) - 1)\<bar> \<le> 1 / 2000000000000000"
    using roundoff_numerals(1) by linarith
  have c: "\<bar>fl 0.001 - 1 / 1000\<bar> \<le> 1 / 5000000000000000"
    using tolerance_literal roundoff_numerals(2) by simp
  have m: "\<bar>(kw + vw) - 1\<bar> \<ge> 1 / 1000 + 1 / 1000000000000000"
    using assms(5) by simp
  have "\<bar>fl (fl (kw + vw) - 1)\<bar> > fl 0.001"
    using d c m by linarith
  then show ?thesis by (simp add: validate_weights_sum_def)
qed

lemma literal_in_bounds:
  assumes "0 \<le> c" and "c \<le> 0.9"
  shows "0 \<le> fl c \<and> fl c \<le> 1 \<and> \<bar>fl c - c\<bar> \<le> 1 / 5000000000000000"
proof -
  have "\<bar>fl c - c\<bar> \<le> \<bar>c\<bar> / 2 ^ 53" by (rule fl_error)
  also have "\<dots> \<le> 1 / 2 ^ 53"
    using assms by (intro divide_right_mono) simp_all
  finally have "\<bar>fl c - c\<bar> \<le> 1 / 5000000000000000"
    using roundoff_numerals(2) by linarith
  moreover have "\<bar>fl c - c\<bar> \<le> c"
  proof -
    have "\<bar>fl c - c\<bar> \<le> \<bar>c\<bar> / 2 ^ 53" by (rule fl_error)
    also have "\<dots> \<le> \<bar>c\<bar> / 1" by (intro divide_left_mono) simp_all
    finally show ?thesis using assms by simp
  qed
  ultimately show ?thesis using assms by linarith
qed

text \<open>
  Claim C8, as stated: with both weights given, construction succeeds exactly when the
  sum of the weights is within 0.001 of 1.  It fails for the weights 1.0005 and 0, whose
  sum is within 0.001 of 1: the first is above the bound 1 of its own field.
\<close>

theorem weights_sum_alone_counterexample:
  "\<not> (\<forall>vw kw. (\<not> isl (new_SearchOptions Hybrid 10 0.3 None (Some vw) (Some kw)))
                 \<longleftrightarrow> \<bar>(kw + vw) - 1\<bar> \<le> 0.001)"
proof
  assume "\<forall>vw kw. (\<not> isl (new_SearchOptions Hybrid 10 0.3 None (Some vw) (Some kw)))
                 \<longleftrightarrow> \<bar>(kw + vw) - 1\<bar> \<le> 0.001"
  then have "(\<not> isl (new_SearchOptions Hybrid 10 0.3 None (Some 1.0005) (Some 0)))
                 \<longleftrightarrow> \<bar>(0 + 1.0005) - 1\<bar> \<le> (0.001::real)"
    by blast
  then show False
    by (simp add: new_SearchOptions_def in_bounds_def weight_in_bounds_def)
qed

text \<open>
  Claim C8, amended.  The floats 0.6 and 0.3 are rejected as weights with a
  \<open>ValidationError\<close>.  The other fields being valid: a weight outside [0, 1] is
  rejected whatever the sum; weights in [0, 1] whose sum is within \<open>0.001 - 10^-15\<close> of
  1 are accepted; and weights whose sum is further than \<open>0.001 + 10^-15\<close> from 1 are
  rejected.  Between the two margins the outcome is decided by the rounding of the two
  float operations.
\<close>

theorem weights_must_sum_to_one:
  assumes "1 \<le> mr" "mr \<le> 100" "0 \<le> ms" "ms \<le> 1"
  shows "new_SearchOptions md 10 (fl 0.3) None (Some (fl 0.6)) (Some (fl 0.3))
           = Inl (ValidationError ''keyword_weight'') \<and>
         (\<not> (0 \<le> vw \<and> vw \<le> 1 \<and> 0 \<le> kw \<and> kw \<le> 1) \<longrightarrow>
            isl (new_SearchOptions md mr ms src (Some vw) (Some kw))) \<and>
         (0 \<le> vw \<and> vw \<le> 1 \<and> 0 \<le> kw \<and> kw \<le> 1 \<and>
          \<bar>(kw + vw) - 1\<bar> \<le> 0.001 - 1 / 10 ^ 15 \<longrightarrow>
            \<not> isl (new_SearchOptions md mr ms src (Some vw) (Some kw))) \<and>
         (\<bar>(kw + vw) - 1\<bar> \<ge> 0.001 + 1 / 10 ^ 15 \<longrightarrow>
            isl (new_SearchOptions md mr ms src (Some vw) (Some kw)))"
proof -
  have b3: "0 \<le> fl 0.3 \<and> fl 0.3 \<le> 1 \<and> \<bar>fl 0.3 - 0.3\<bar> \<le> 1 / 5000000000000000"
    by (rule literal_in_bounds) simp_all
  have b6: "0 \<le> fl 0.6 \<and> fl 0.6 \<le> 1 \<and> \<bar>fl 0.6 - 0.6\<bar> \<le> 1 / 5000000000000000"
    by (rule literal_in_bounds) simp_all
  have "\<bar>fl 0.3 - 3 / 10\<bar> \<le> 1 / 5000000000000000"
    and "\<bar>fl 0.6 - 6 / 10\<bar> \<le> 1 / 5000000000000000"
    using b3 b6 by simp_all
  then have "\<bar>(fl 0.3 + fl 0.6) - 1\<bar> \<ge> 1 / 1000 + 1 / 1000000000000000"
    by linarith
  then have far: "\<bar>(fl 0.3 + fl 0.6) - 1\<bar> \<ge> 0.001 + 1 / 10 ^ 15"
    by simp
  have "isl (validate_weights_sum (Some (fl 0.3)) (Some (Some (fl 0.6))))"
    using b3 b6 far by (intro validate_weights_sum_rejects) simp_all
  then have scenario: "new_SearchOptions md 10 (fl 0.3) None (Some (fl 0.6)) (Some (fl 0.3))
           = Inl (ValidationError ''keyword_weight'')"
    using b3 b6
    by (auto simp add: new_SearchOptions_def in_bounds_def weight_in_bounds_def
        split: sum.splits)
  have outside: "isl (new_SearchOptions md mr ms src (Some vw) (Some kw))"
    if "\<not> (0 \<le> vw \<and> vw \<le> 1 \<and> 0 \<le> kw \<and> kw \<le> 1)"
    using that by (auto simp add: new_SearchOptions_def in_bounds_def weight_in_bounds_def)
  have accepted: "\<not> isl (new_SearchOptions md mr ms src (Some vw) (Some kw))"
    if "0 \<le> vw \<and> vw \<le> 1 \<and> 0 \<le> kw \<and> kw \<le> 1 \<and> \<bar>(kw + vw) - 1\<bar> \<le> 0.001 - 1 / 10 ^ 15"
  proof -
    have "validate_weights_sum (Some kw) (Some (Some vw)) = Inr (Some kw)"
      using that by (intro validate_weights_sum_accepts) simp_all
    then show ?thesis
      using that assms
      by (simp add: new_SearchOptions_def in_bounds_def weight_in_bounds_def)
  qed
  have rejected: "isl (new_SearchOptions md mr ms src (Some vw) (Some kw))"
    if far: "\<bar>(kw + vw) - 1\<bar> \<ge> 0.001 + 1 / 10 ^ 15"
  proof (cases "0 \<le> vw \<and> vw \<le> 1 \<and> 0 \<le> kw \<and> kw \<le> 1")
    case False
    then show ?thesis by (rule outside)
  next
    case True
    then have "isl (validate_weights_sum (Some kw) (Some (Some vw)))"
      using far by (intro validate_weights_sum_rejects) simp_all
    then show ?thesis
      by (auto simp add: new_SearchOptions_def split: sum.splits)
  qed
  from scenario outside accepted rejected show ?thesis by blast
qed

theorem weights_must_sum_to_one_witness:
  "isl (new_SearchOptions Hybrid 10 0.3 None (Some 1.5) (Some 0.3)) \<and>
   \<not> isl (new_SearchOptions Hybrid 10 0.3 None (Some 0.7) (Some 0.3)) \<and>
   isl (new_SearchOptions Hybrid 10 0.3 None (Some 0.5) (Some 0.4))"
  using weights_must_sum_to_one [where mr = 10 and ms = "0.3" and vw = "1.5" and kw = "0.3"
      and md = Hybrid and src = None]
    weights_must_sum_to_one [where mr = 10 and ms = "0.3" and vw = "0.7" and kw = "0.3"
      and md = Hybrid and src = None]
    weights_must_sum_to_one [where mr = 10 and ms = "0.3" and vw = "0.5" and kw = "0.4"
      and md = Hybrid and src = None]
  by simp

section \<open>Hybrid search: the weights used by the merge\<close>

lemma merge_results_sorted:
  "sorted (map (\<lambda>r. - sr_score r) (merge_results vs ks vw kw))"
  by (simp add: merge_results_def sort_descending_def Let_def)

lemma merge_results_clamped:
  "r \<in> set (merge_results vs ks vw kw) \<Longrightarrow> sr_score r \<le> 1"
  by (auto simp add: merge_results_def sort_descending_def combine_def Let_def)

lemma or_default_nonzero:
  "v \<noteq> 0 \<Longrightarrow> or_default (Some v) d = v"
  by (simp add: or_default_def)

text \<open>
  Claim C5.  The merge is claimed to score every span with
  \<open>vector_score * vector_weight + keyword_score * keyword_weight\<close> for the caller's
  weights, whenever they sum to 1.  The caller asks for the weights 0 and 1 (keyword
  only), \<open>min_score\<close> 0.3 and \<open>max_results\<close> 10; vector search returns one span with
  score 0.9 and keyword search returns nothing.  By the claim the span scores
  \<open>0.9 * 0 + 0 * 1 = 0\<close> and is filtered out.  The code returns it with score 0.63: the
  weight 0 is replaced by the default 0.7, as the recorded \<open>vector_weight\<close> shows.
\<close>

theorem hybrid_search_zero_weight:
  "hybrid_search (\<lambda>query options. Inr [span_a]) (\<lambda>query options. Inr []) ''hello''
     keyword_only_options =
   Inr [span_a\<lparr>sr_score := 0.63,
               sr_metadata :=
                 [(''search_type'', JStr ''hybrid''), (''vector_score'', JNum 0.9),
                  (''keyword_score'', JNum 0), (''combined_score'', JNum 0.63),
                  (''vector_weight'', JNum 0.7), (''keyword_weight'', JNum 1),
                  (''appears_in_both'', JBool False)]\<rparr>] \<and>
   vector_weight keyword_only_options = Some 0 \<and>
   keyword_weight keyword_only_options = Some 1"
proof -
  have "validate_weights_sum (Some 1) (Some (Some 0)) = Inr (Some 1)"
    by (rule validate_weights_sum_accepts) simp_all
  then show ?thesis
    by (simp add: hybrid_search_def keyword_only_options_def span_a_def new_SearchOptions_def
        in_bounds_def weight_in_bounds_def merge_results_def
        process_vector_result_def result_key_def str_nat.simps [of 0] combine_def
        dict_get_def dict_update_def or_default_def sort_descending_def Let_def)
qed

section \<open>Chunker: coverage of the input\<close>

lemma is_space_newline: "is_space newline"
  by (simp add: is_space_def newline_def)

lemma no_space_dropWhile:
  "\<forall>ch \<in> set s. \<not> is_space ch \<Longrightarrow> dropWhile is_space s = s"
  by (cases s) simp_all

lemma no_space_strip:
  assumes "\<forall>ch \<in> set s. \<not> is_space ch"
  shows "strip s = s"
proof -
  have "\<forall>ch \<in> set (rev s). \<not> is_space ch" using assms by simp
  then have "dropWhile is_space (rev s) = rev s" by (rule no_space_dropWhile)
  then show ?thesis using assms by (simp add: strip_def no_space_dropWhile)
qed

lemma split_from_no_newline:
  "newline \<notin> set cs \<Longrightarrow> split_from 0 piece cs = [piece @ cs]"
  by (induction cs arbitrary: piece) auto

lemma str_find_self: "str_find s s 0 = Some 0"
  by (simp add: str_find_def upt_rec)

lemma chunk_with_structure_no_space:
  assumes "text \<noteq> []" and "\<forall>ch \<in> set text. \<not> is_space ch"
  shows "chunk_with_structure c text md =
           [\<lparr>tc_text = text, tc_start_char = 0, tc_end_char = int (length text),
             tc_metadata = copy_metadata md\<rparr>]"
proof -
  have "newline \<notin> set text" using assms(2) is_space_newline by blast
  then have sp: "split_paragraphs text = [text]"
    by (simp add: split_paragraphs_def split_from_no_newline)
  have st: "strip text = text" using assms(2) by (rule no_space_strip)
  show ?thesis
    using assms(1) by (simp add: chunk_with_structure_def sp add_paragraph_def st str_find_self Let_def)
qed

lemma snap_back_no_space:
  assumes "\<forall>ch \<in> set s. \<not> is_space ch"
  shows "snap_back s = None"
proof -
  have "\<not> is_space (s ! (length s - (j + 1)))" if "j < min 50 (length s)" for j
  proof -
    from that have "length s - (j + 1) < length s" by arith
    then have "s ! (length s - (j + 1)) \<in> set s" by (rule nth_mem)
    with assms show ?thesis by blast
  qed
  then have "find (\<lambda>j. is_space (s ! (length s - (j + 1)))) [0..<min 50 (length s)] = None"
    by (simp add: find_None_iff)
  then show ?thesis by (simp add: snap_back_def)
qed

lemma window_no_space:
  assumes nosp: "\<forall>ch \<in> set text. \<not> is_space ch"
    and i: "i < length text" and size: "0 < chunk_size c"
  shows "window c text md i =
           Inr [\<lparr>tc_text = slice text (int i) (min (int i + chunk_size c) (int (length text))),
                 tc_start_char = int i,
                 tc_end_char = min (int i + chunk_size c) (int (length text)),
                 tc_metadata = copy_metadata md\<rparr>]"
proof -
  let ?end = "min (int i + chunk_size c) (int (length text))"
  let ?ct = "slice text (int i) ?end"
  have endpos: "int i < ?end" using i size by simp
  have a: "slice_index (length text) (int i) = i"
    using i by (simp add: slice_index_def)
  have "0 \<le> ?end" and "?end \<le> int (length text)" using endpos by linarith+
  then have b: "slice_index (length text) ?end = nat ?end"
    by (simp add: slice_index_def)
  have "i < nat ?end" using endpos by linarith
  then have ne: "?ct \<noteq> []" using i by (simp add: slice_def a b)
  have sub: "set ?ct \<subseteq> set text"
    by (auto simp add: slice_def dest: in_set_takeD in_set_dropD)
  then have nosp': "\<forall>ch \<in> set ?ct. \<not> is_space ch" using nosp by blast
  have strip: "strip ?ct = ?ct" using nosp' by (rule no_space_strip)
  have snap: "snap_back ?ct = None" using nosp' by (rule snap_back_no_space)
  have emit: "emit_window md i ?ct ?end =
                [\<lparr>tc_text = ?ct, tc_start_char = int i, tc_end_char = ?end,
                  tc_metadata = copy_metadata md\<rparr>]"
    using strip ne by (simp add: emit_window_def)
  have idx: "?end < int (length text) \<Longrightarrow> str_index text ?end = Inr (text ! nat ?end)"
    using endpos by (simp add: str_index_def Let_def)
  have nsp: "?end < int (length text) \<Longrightarrow> \<not> is_space (text ! nat ?end)"
  proof -
    assume "?end < int (length text)"
    then have "nat ?end < length text" using endpos by linarith
    then have "text ! nat ?end \<in> set text" by (rule nth_mem)
    with nosp show ?thesis by blast
  qed
  show ?thesis
  proof (cases "?end < int (length text)")
    case True
    then show ?thesis
      unfolding window_def Let_def
      using idx nsp snap emit by simp
  next
    case False
    then show ?thesis
      unfolding window_def Let_def
      using emit by simp
  qed
qed

lemma sliding_from_covers:
  "(\<forall>ch \<in> set text. \<not> is_space ch) \<Longrightarrow> 0 \<le> overlap c \<Longrightarrow> overlap c < chunk_size c \<Longrightarrow>
   \<exists>cs. sliding_from c text md i = Inr cs \<and>
        (\<forall>p. i \<le> p \<and> p < length text \<longrightarrow> covered cs (int p))"
proof (induction c "text" md i rule: sliding_from.induct)
  case (1 c t md i)
  let ?stride = "nat (chunk_size c - overlap c)"
  let ?end = "min (int i + chunk_size c) (int (length t))"
  let ?w = "[\<lparr>tc_text = slice t (int i) ?end, tc_start_char = int i,
              tc_end_char = ?end, tc_metadata = copy_metadata md\<rparr>]"
  show ?case
  proof (cases "i < length t")
    case False
    then show ?thesis by (auto simp add: sliding_from.simps [of c t md i])
  next
    case True
    have pos: "0 < chunk_size c - overlap c" using "1.prems" by simp
    have size: "0 < chunk_size c" using "1.prems" by simp
    have w: "window c t md i = Inr ?w"
      using window_no_space [OF "1.prems"(1) True size] .
    from "1.IH" [OF conjI [OF True pos] w "1.prems"]
    obtain rest where rest: "sliding_from c t md (i + ?stride) = Inr rest"
      and cov: "\<forall>p. i + ?stride \<le> p \<and> p < length t \<longrightarrow> covered rest (int p)"
      by blast
    have eq: "sliding_from c t md i = Inr (?w @ rest)"
      using True pos w rest by (simp add: sliding_from.simps [of c t md i])
    have "covered (?w @ rest) (int p)" if p: "i \<le> p" "p < length t" for p
    proof (cases "p < i + ?stride")
      case True
      then have "int p < int i + chunk_size c" using "1.prems"(2) pos by linarith
      then have "int p < ?end" using p by simp
      then show ?thesis using p by (simp add: covered_def)
    next
      case False
      then have "covered rest (int p)" using cov p by simp
      then show ?thesis by (auto simp add: covered_def)
    qed
    then show ?thesis using eq by blast
  qed
qed

text \<open>
  Claim C6.  The chunk ranges are claimed to cover every character position of every
  non-empty text.  Two inputs on which a character that is not whitespace lies in no
  range, the legacy chunker not being importable.  For the two paragraphs \<open>a\<close> and
  \<open>b\<close> separated by three line feeds, \<open>chunk_text\<close> (paragraph grouping) gives the
  single range [0, 4): its end is computed from the length of the rejoined text
  \<open>a\n\nb\<close>, and position 4, the \<open>b\<close>, is outside it although the chunk's text
  contains the \<open>b\<close>.  For \<open>aaaa bbbb\<close> with chunk size 6 and overlap 0 (sliding window),
  the first window is cut back to [0, 4) at the space and the next one starts at 6, so
  the \<open>b\<close> at position 5 is in no chunk at all.
\<close>

theorem chunker_leaves_characters_uncovered:
  "chunk_text False default_chunker two_paragraphs None =
     Some (Inr [\<lparr>tc_text = [CHR ''a'', newline, newline, CHR ''b''], tc_start_char = 0,
                  tc_end_char = 4, tc_metadata = []\<rparr>]) \<and>
   two_paragraphs ! 4 = CHR ''b'' \<and>
   \<not> covered [\<lparr>tc_text = [CHR ''a'', newline, newline, CHR ''b''], tc_start_char = 0,
                 tc_end_char = 4, tc_metadata = []\<rparr>] 4 \<and>
   chunk_text False small_chunker ''aaaa bbbb'' None =
     Some (Inr [\<lparr>tc_text = ''aaaa'', tc_start_char = 0, tc_end_char = 4, tc_metadata = []\<rparr>,
                \<lparr>tc_text = ''bbb'', tc_start_char = 6, tc_end_char = 9, tc_metadata = []\<rparr>]) \<and>
   ''aaaa bbbb'' ! 5 = CHR ''b'' \<and>
   \<not> covered [\<lparr>tc_text = ''aaaa'', tc_start_char = 0, tc_end_char = 4, tc_metadata = []\<rparr>,
                \<lparr>tc_text = ''bbb'', tc_start_char = 6, tc_end_char = 9, tc_metadata = []\<rparr>] 5"
proof -
  have two: "chunk_text_internal default_chunker two_paragraphs None =
     Inr [\<lparr>tc_text = [CHR ''a'', newline, newline, CHR ''b''], tc_start_char = 0,
            tc_end_char = 4, tc_metadata = []\<rparr>]"
    by code_simp
  have slide: "chunk_text_internal small_chunker ''aaaa bbbb'' None =
     Inr [\<lparr>tc_text = ''aaaa'', tc_start_char = 0, tc_end_char = 4, tc_metadata = []\<rparr>,
          \<lparr>tc_text = ''bbb'', tc_start_char = 6, tc_end_char = 9, tc_metadata = []\<rparr>]"
    by code_simp
  have s1: "strip two_paragraphs \<noteq> []" by code_simp
  have s2: "strip ''aaaa bbbb'' \<noteq> []" by code_simp
  have c1: "chunk_text False default_chunker two_paragraphs None =
     Some (Inr [\<lparr>tc_text = [CHR ''a'', newline, newline, CHR ''b''], tc_start_char = 0,
                  tc_end_char = 4, tc_metadata = []\<rparr>])"
    using s1 two by (simp add: chunk_text_def)
  have c2: "chunk_text False small_chunker ''aaaa bbbb'' None =
     Some (Inr [\<lparr>tc_text = ''aaaa'', tc_start_char = 0, tc_end_char = 4, tc_metadata = []\<rparr>,
                \<lparr>tc_text = ''bbb'', tc_start_char = 6, tc_end_char = 9, tc_metadata = []\<rparr>])"
    using s2 slide by (simp add: chunk_text_def)
  have p1: "two_paragraphs ! 4 = CHR ''b''" by (simp add: two_paragraphs_def)
  have p2: "''aaaa bbbb'' ! 5 = CHR ''b''" by simp
  have n1: "\<not> covered [\<lparr>tc_text = [CHR ''a'', newline, newline, CHR ''b''], tc_start_char = 0,
                 tc_end_char = 4, tc_metadata = []\<rparr>] 4"
    by (simp add: covered_def)
  have n2: "\<not> covered [\<lparr>tc_text = ''aaaa'', tc_start_char = 0, tc_end_char = 4, tc_metadata = []\<rparr>,
                \<lparr>tc_text = ''bbb'', tc_start_char = 6, tc_end_char = 9, tc_metadata = []\<rparr>] 5"
    by (simp add: covered_def)
  from c1 p1 n1 c2 p2 n2 show ?thesis by blast
qed

text \<open>
  Where the ranges do cover the text: for every non-empty text that contains no
  whitespace character and every configuration with \<open>0 \<le> overlap < chunk_size\<close>, the
  ranges of the paragraph grouping, of the sliding window, and of
  \<open>_chunk_text_internal\<close> (whichever of the two it uses) cover every character position.
\<close>

theorem chunker_covers_text_without_spaces:
  assumes nonempty: "text \<noteq> []"
    and nosp: "\<forall>ch \<in> set text. \<not> is_space ch"
    and ov: "0 \<le> overlap c" and lt: "overlap c < chunk_size c"
  shows "covers (chunk_with_structure c text md) (length text) \<and>
         (\<exists>cs. chunk_sliding_window c text md = Inr cs \<and> covers cs (length text)) \<and>
         (\<exists>cs. chunk_text_internal c text md = Inr cs \<and> covers cs (length text))"
proof -
  have s: "chunk_with_structure c text md =
             [\<lparr>tc_text = text, tc_start_char = 0, tc_end_char = int (length text),
               tc_metadata = copy_metadata md\<rparr>]"
    using nonempty nosp by (rule chunk_with_structure_no_space)
  have c1: "covers (chunk_with_structure c text md) (length text)"
    by (simp add: s covers_def covered_def)
  obtain cs where cs: "sliding_from c text md 0 = Inr cs"
    and cov: "\<forall>p. 0 \<le> p \<and> p < length text \<longrightarrow> covered cs (int p)"
    using sliding_from_covers [OF nosp ov lt, of md 0] by blast
  have w: "chunk_sliding_window c text md = Inr cs"
    using cs lt by (simp add: chunk_sliding_window_def)
  have c2: "covers cs (length text)" using cov by (simp add: covers_def)
  have c3: "\<exists>cs. chunk_text_internal c text md = Inr cs \<and> covers cs (length text)"
  proof (cases "preserve_structure c")
    case True
    then have "chunk_text_internal c text md = Inr (chunk_with_structure c text md)"
      by (simp add: chunk_text_internal_def s)
    then show ?thesis using c1 by blast
  next
    case False
    then have "chunk_text_internal c text md = chunk_sliding_window c text md"
      by (simp add: chunk_text_internal_def)
    then show ?thesis using w c2 by simp
  qed
  from c1 w c2 c3 show ?thesis by blast
qed

theorem chunker_covers_text_without_spaces_witness:
  "covers (chunk_with_structure small_chunker ''aaaabbbbccccdd'' None)
     (length ''aaaabbbbccccdd'') \<and>
   chunk_sliding_window small_chunker ''aaaabbbbccccdd'' None =
     Inr [\<lparr>tc_text = ''aaaabb'', tc_start_char = 0, tc_end_char = 6, tc_metadata = []\<rparr>,
          \<lparr>tc_text = ''bbcccc'', tc_start_char = 6, tc_end_char = 12, tc_metadata = []\<rparr>,
          \<lparr>tc_text = ''dd'', tc_start_char = 12, tc_end_char = 14, tc_metadata = []\<rparr>] \<and>
   covers [\<lparr>tc_text = ''aaaabb'', tc_start_char = 0, tc_end_char = 6, tc_metadata = []\<rparr>,
          \<lparr>tc_text = ''bbcccc'', tc_start_char = 6, tc_end_char = 12, tc_metadata = []\<rparr>,
          \<lparr>tc_text = ''dd'', tc_start_char = 12, tc_end_char = 14, tc_metadata = []\<rparr>]
     (length ''aaaabbbbccccdd'')"
proof -
  have ev: "chunk_sliding_window small_chunker ''aaaabbbbccccdd'' None =
     Inr [\<lparr>tc_text = ''aaaabb'', tc_start_char = 0, tc_end_char = 6, tc_metadata = []\<rparr>,
          \<lparr>tc_text = ''bbcccc'', tc_start_char = 6, tc_end_char = 12, tc_metadata = []\<rparr>,
          \<lparr>tc_text = ''dd'', tc_start_char = 12, tc_end_char = 14, tc_metadata = []\<rparr>]"
    by code_simp
  have "''aaaabbbbccccdd'' \<noteq> []" by simp
  moreover have "\<forall>ch \<in> set ''aaaabbbbccccdd''. \<not> is_space ch"
    by (simp add: is_space_def)
  moreover have "0 \<le> overlap small_chunker" "overlap small_chunker < chunk_size small_chunker"
    by (simp_all add: small_chunker_def)
  ultimately show ?thesis
    using chunker_covers_text_without_spaces [of "''aaaabbbbccccdd''" small_chunker None] ev
    by simp
qed

section \<open>Evaluation in the small world\<close>





lemma demo_text_chunker_hello:
  "demo_text_chunker ''hello world'' md =
     Inr [\<lparr>tc_text = ''hello world'', tc_start_char = 0, tc_end_char = 11,
           tc_metadata = copy_metadata md\<rparr>]"
  unfolding demo_text_chunker_def by code_simp

lemma embed_local:
  "embed_single now local_manager ''hello world'' = (Inr (Some [11]), local_manager)"
  by (simp add: embed_single_def embed_def generate_all_def generate_embeddings_def
      local_manager_def length_provider_def is_provider_available_def failures_def)

lemma str_nat_small:
  "str_nat 0 = ''0''" "str_nat 1 = ''1''" "str_nat (Suc 0) = ''1''" "str_nat 2 = ''2''"
  "str_nat 3 = ''3''" "str_nat 11 = ''11''"
  by (simp_all add: str_nat.simps [of 0] str_nat.simps [of 1] str_nat.simps [of 2]
      str_nat.simps [of 3] str_nat.simps [of 11] str_nat.simps [of "Suc 0"])

lemma local_manager_no_storage:
  "storage_backend local_manager = None"
  "local_manager\<lparr>storage_backend := None\<rparr> = local_manager"
  by (simp_all add: local_manager_def)

lemmas eval_defs =
  ingest_text_def ingest_file_def ensure_initialized_def process_text_def process_file_def
  create_chunks_def create_file_info_def is_supported_file_def suffix_def basename_def
  lower_def lower_char_def endswith_def or_empty_def dict_update_def dict_get_def
  embed_single_shared_def add_file_def add_chunk_def delete_files_where_def
  get_file_by_path_def update_file_def delete_chunks_by_file_def is_file_changed_def
  get_file_hash_def empty_backend_def copy_metadata_def
  demo_world_def demo_manager_def demo_processor_def a_txt_def docs_dir_def
  md5_table_def sha256_table_def text_file_def a_txt_info_def hello_row_def Let_def

lemmas eval_facts =
  demo_text_chunker_hello embed_local str_nat_small local_manager_no_storage



text \<open>The state after the file \<open>docs/a.txt\<close> has been ingested once, and twice.\<close>

lemma file_once_eq:
  "ingest_file demo_world no_initialize demo_manager ''docs/a.txt'' None =
     (Inr ''uuid-0'',
      demo_manager
        \<lparr>storage :=
           \<lparr>files = [a_txt_info 1700000000],
            chunks = [hello_row 1 ''uuid-1'' ''uuid-0'' (JStr ''.txt'') (JStr ''text/plain'')
                        ''docs/a.txt''],
            chunks_fts = [(1, ''hello world'')], chunks_vec = [],
            embedding_cache = [], seq = 1, has_vector_support = False\<rparr>,
         uuids_drawn := 2\<rparr>)"
  by (simp add: eval_defs eval_facts)

lemma file_twice_eq:
  "ingest_file demo_world no_initialize file_once ''docs/a.txt'' None =
     (Inl (IntegrityError ''FOREIGN KEY constraint failed''),
      demo_manager
        \<lparr>storage :=
           \<lparr>files = [a_txt_info 1700000100],
            chunks = [], chunks_fts = [], chunks_vec = [],
            embedding_cache = [], seq = 1, has_vector_support = False\<rparr>,
         uuids_drawn := 4\<rparr>)"
  unfolding file_once_def file_once_eq
  by (simp add: eval_defs eval_facts)

section \<open>Synchronisation guard\<close>












section \<open>Raw-text ingestion\<close>




















section \<open>Ingesting a file again\<close>

text \<open>
  Claim C2.  A second \<open>ingest_file\<close> of a file that is unchanged on disk is claimed to
  return the stored identifier, to create no chunk and to leave the stored chunks as
  they are.  In the small world \<open>docs/a.txt\<close> is ingested (file \<open>uuid-0\<close>, one chunk
  \<open>uuid-1\<close>) and then, nothing on disk having changed, ingested again.  The stored hash
  is the digest of the content, and \<open>is_file_changed\<close> compares it with
  \<open>get_file_hash\<close>, the digest of \<open>path:size:mtime\<close>: the file is found changed.  Its chunks
  are deleted and the file is processed again; the new chunk carries the identifier
  \<open>uuid-2\<close> that \<open>process_file\<close> drew for the file, while the file row keeps \<open>uuid-0\<close>, so
  the insert of the chunk violates the foreign key.  The call raises, and the file is
  left without chunks.
\<close>

theorem ingest_file_unchanged_reprocessed:
  "fst (ingest_file demo_world no_initialize demo_manager ''docs/a.txt'' None) = Inr ''uuid-0'' \<and>
   map fi_id (files (storage file_once)) = [''uuid-0''] \<and>
   map (\<lambda>r. (ci_id (chunk r), ci_file_id (chunk r))) (chunks (storage file_once)) =
     [(''uuid-1'', ''uuid-0'')] \<and>
   map fi_hash (files (storage file_once)) = [md5 demo_world ''hello world''] \<and>
   get_file_hash demo_world ''docs/a.txt'' a_txt = md5 demo_world ''docs/a.txt:11:1700000000.0'' \<and>
   is_file_changed demo_world ''docs/a.txt'' (md5 demo_world ''hello world'') 1700000000 \<and>
   fst (ingest_file demo_world no_initialize file_once ''docs/a.txt'' None) =
     Inl (IntegrityError ''FOREIGN KEY constraint failed'') \<and>
   map fi_id (files (storage file_twice)) = [''uuid-0''] \<and>
   chunks (storage file_twice) = []"
  unfolding file_twice_def file_twice_eq
  unfolding file_once_def file_once_eq
  by (simp add: eval_defs eval_facts)

end
